theory Spec2Isabelle
  imports Complex_Main
begin

section \<open>Tables, cells and the object store\<close>

text \<open>
  The program in \<^verbatim>\<open>scripts/data_processing.py\<close> is a chain of loops over a Python dict
  \<^verbatim>\<open>data_frames\<close> from ticker symbols to pandas DataFrame objects. A float64 cell is
  modelled by an exact real number, by \<open>NaN\<close> (the missing marker) or by one of the two
  infinities that a float division by zero produces. The sign of zero is not modelled:
  a zero divisor is taken to be \<open>+0.0\<close>. Rounding and overflow are modelled where a
  claim depends on them, in the scaler of \<^verbatim>\<open>normalize_data\<close>; the other operations
  compute exact results.
\<close>

datatype cell = NaN | Num real | PInf | NInf

type_synonym date = int

datatype column = DateCol "date option list" | FloatCol "cell list"

datatype index = IntIndex "nat list" | DateIndex "date option list" | FloatIndex "cell list"

record frame =
  index :: index
  columns :: "(string \<times> column) list"

datatype error = KeyError string | ValueError string | TypeError string

datatype 'a outcome = Return 'a | Raise error

type_synonym ref = nat

text \<open>What \<^verbatim>\<open>print\<close> writes: a line of text, a table, the per-column types or the
  per-column counts of a report.\<close>

datatype printed =
    Text string
  | Table frame
  | Dtypes "(string \<times> string) list"
  | Counts "(string \<times> nat) list"

text \<open>
  DataFrames are objects: the dict holds references, several names may denote one
  object, and \<^verbatim>\<open>data[name] = ...\<close> changes the object for every holder. The store maps
  a reference to the object's current value; \<open>nxt\<close> is the first unused reference.
  \<open>data_frames\<close> is the dict (insertion ordered, keys distinct) and \<open>printed\<close> is
  everything written to standard output so far.
\<close>

record world =
  heap :: "ref \<Rightarrow> frame"
  nxt :: ref
  data_frames :: "(string \<times> ref) list"
  printed :: "printed list"

definition alloc :: "frame \<Rightarrow> world \<Rightarrow> ref \<times> world" where
  "alloc f w = (nxt w, w\<lparr>heap := (heap w)(nxt w := f), nxt := Suc (nxt w)\<rparr>)"

fun dict_set :: "(string \<times> ref) list \<Rightarrow> string \<Rightarrow> ref \<Rightarrow> (string \<times> ref) list" where
  "dict_set [] k v = [(k, v)]"
| "dict_set ((k', v') # rest) k v =
     (if k' = k then (k, v) # rest else (k', v') # dict_set rest k v)"

text \<open>\<^verbatim>\<open>for ticker, data in data_frames.items(): body\<close>; an exception ends the loop and
  leaves the store as the body left it.\<close>

fun for_items ::
  "(string \<Rightarrow> ref \<Rightarrow> world \<Rightarrow> unit outcome \<times> world) \<Rightarrow> (string \<times> ref) list \<Rightarrow> world
     \<Rightarrow> unit outcome \<times> world" where
  "for_items body [] w = (Return (), w)"
| "for_items body ((t, r) # rest) w =
     (case body t r w of
        (Raise e, w') \<Rightarrow> (Raise e, w')
      | (Return u, w') \<Rightarrow> for_items body rest w')"

subsection \<open>pandas primitives used by the cleaning stage\<close>

definition length_index :: "index \<Rightarrow> nat" where
  "length_index ix =
     (case ix of
        IntIndex ls \<Rightarrow> length ls
      | DateIndex ds \<Rightarrow> length ds
      | FloatIndex xs \<Rightarrow> length xs)"

definition nrows :: "frame \<Rightarrow> nat" where
  "nrows f = length_index (index f)"

definition isnull :: "column \<Rightarrow> bool list" where
  "isnull c = (case c of
      DateCol ds \<Rightarrow> map (\<lambda>d. d = None) ds
    | FloatCol xs \<Rightarrow> map (\<lambda>x. x = NaN) xs)"

text \<open>Boolean-mask selection \<^verbatim>\<open>xs[keep]\<close>.\<close>

definition select :: "bool list \<Rightarrow> 'a list \<Rightarrow> 'a list" where
  "select keep xs = map fst (filter snd (zip xs keep))"

definition select_column :: "bool list \<Rightarrow> column \<Rightarrow> column" where
  "select_column keep c = (case c of
      DateCol ds \<Rightarrow> DateCol (select keep ds)
    | FloatCol xs \<Rightarrow> FloatCol (select keep xs))"

definition select_index :: "bool list \<Rightarrow> index \<Rightarrow> index" where
  "select_index keep ix = (case ix of
      IntIndex ls \<Rightarrow> IntIndex (select keep ls)
    | DateIndex ds \<Rightarrow> DateIndex (select keep ds)
    | FloatIndex xs \<Rightarrow> FloatIndex (select keep xs))"

definition select_rows :: "bool list \<Rightarrow> frame \<Rightarrow> frame" where
  "select_rows keep f =
     \<lparr>index = select_index keep (index f),
      columns = map (\<lambda>(n, c). (n, select_column keep c)) (columns f)\<rparr>"

text \<open>\<^verbatim>\<open>DataFrame.dropna()\<close>: a new table with the rows that have no missing value in any
  column. The surviving rows keep their index labels.\<close>

definition complete_rows :: "frame \<Rightarrow> bool list" where
  "complete_rows f =
     map (\<lambda>i. list_all (\<lambda>(n, c). \<not> (isnull c ! i)) (columns f)) [0..<nrows f]"

definition dropna :: "frame \<Rightarrow> frame" where
  "dropna f = select_rows (complete_rows f) f"

text \<open>Forward fill: a missing cell takes the last value seen before it; leading gaps
  stay. Backward fill is the mirror image.\<close>

fun ffill_from :: "'a \<Rightarrow> ('a \<Rightarrow> bool) \<Rightarrow> 'a list \<Rightarrow> 'a list" where
  "ffill_from prev missing [] = []"
| "ffill_from prev missing (x # xs) =
     (if missing x then prev # ffill_from prev missing xs
      else x # ffill_from x missing xs)"

definition ffill :: "cell list \<Rightarrow> cell list" where
  "ffill xs = ffill_from NaN (\<lambda>x. x = NaN) xs"

definition bfill :: "cell list \<Rightarrow> cell list" where
  "bfill xs = rev (ffill (rev xs))"

definition ffill_column :: "column \<Rightarrow> column" where
  "ffill_column c = (case c of
      DateCol ds \<Rightarrow> DateCol (ffill_from None (\<lambda>d. d = None) ds)
    | FloatCol xs \<Rightarrow> FloatCol (ffill xs))"

definition bfill_column :: "column \<Rightarrow> column" where
  "bfill_column c = (case c of
      DateCol ds \<Rightarrow> DateCol (rev (ffill_from None (\<lambda>d. d = None) (rev ds)))
    | FloatCol xs \<Rightarrow> FloatCol (bfill xs))"

text \<open>\<^verbatim>\<open>DataFrame.fillna(method=m)\<close>: pandas accepts the fill methods \<^verbatim>\<open>pad\<close>/\<^verbatim>\<open>ffill\<close>
  and \<^verbatim>\<open>backfill\<close>/\<^verbatim>\<open>bfill\<close> and rejects every other string with a ValueError before
  it looks at the data.\<close>

definition fillna :: "frame \<Rightarrow> string \<Rightarrow> error + frame" where
  "fillna f m =
     (if m = ''ffill'' \<or> m = ''pad'' then
        Inr (f\<lparr>columns := map (\<lambda>(n, c). (n, ffill_column c)) (columns f)\<rparr>)
      else if m = ''bfill'' \<or> m = ''backfill'' then
        Inr (f\<lparr>columns := map (\<lambda>(n, c). (n, bfill_column c)) (columns f)\<rparr>)
      else Inl (ValueError ''Invalid fill method. Expecting pad (ffill) or backfill (bfill).''))"

subsection \<open>handle_missing_values\<close>

definition handle_missing_values_body ::
  "string \<Rightarrow> string \<Rightarrow> ref \<Rightarrow> world \<Rightarrow> unit outcome \<times> world" where
  "handle_missing_values_body method ticker data w =
     (if method = ''drop'' then
        (let (r, w') = alloc (dropna (heap w data)) w
         in (Return (), w'\<lparr>data_frames := dict_set (data_frames w') ticker r\<rparr>))
      else
        (case fillna (heap w data) method of
           Inl e \<Rightarrow> (Raise e, w)
         | Inr f \<Rightarrow>
             (let (r, w') = alloc f w
              in (Return (), w'\<lparr>data_frames := dict_set (data_frames w') ticker r\<rparr>))))"

definition handle_missing_values :: "string \<Rightarrow> world \<Rightarrow> unit outcome \<times> world" where
  "handle_missing_values method w =
     for_items (handle_missing_values_body method) (data_frames w) w"

subsection \<open>Float arithmetic on cells\<close>

text \<open>NaN propagates; a non-zero number divided by zero is an infinity and \<open>0/0\<close> is NaN.\<close>

fun cell_div :: "cell \<Rightarrow> cell \<Rightarrow> cell" where
  "cell_div (Num x) (Num y) =
     (if y = 0 then (if x = 0 then NaN else if 0 < x then PInf else NInf) else Num (x / y))"
| "cell_div (Num x) PInf = Num 0"
| "cell_div (Num x) NInf = Num 0"
| "cell_div PInf (Num y) = (if y < 0 then NInf else PInf)"
| "cell_div NInf (Num y) = (if y < 0 then PInf else NInf)"
| "cell_div a b = NaN"

fun cell_sub :: "cell \<Rightarrow> cell \<Rightarrow> cell" where
  "cell_sub (Num x) (Num y) = Num (x - y)"
| "cell_sub (Num x) PInf = NInf"
| "cell_sub (Num x) NInf = PInf"
| "cell_sub PInf (Num y) = PInf"
| "cell_sub NInf (Num y) = NInf"
| "cell_sub PInf NInf = PInf"
| "cell_sub NInf PInf = NInf"
| "cell_sub a b = NaN"

fun cell_mul :: "cell \<Rightarrow> cell \<Rightarrow> cell" where
  "cell_mul (Num x) (Num y) = Num (x * y)"
| "cell_mul (Num x) PInf = (if x = 0 then NaN else if 0 < x then PInf else NInf)"
| "cell_mul (Num x) NInf = (if x = 0 then NaN else if 0 < x then NInf else PInf)"
| "cell_mul PInf (Num y) = (if y = 0 then NaN else if 0 < y then PInf else NInf)"
| "cell_mul NInf (Num y) = (if y = 0 then NaN else if 0 < y then NInf else PInf)"
| "cell_mul PInf PInf = PInf"
| "cell_mul NInf NInf = PInf"
| "cell_mul PInf NInf = NInf"
| "cell_mul NInf PInf = NInf"
| "cell_mul a b = NaN"


text \<open>Comparisons with a number; every comparison with NaN is false.\<close>

fun cell_gt :: "cell \<Rightarrow> real \<Rightarrow> bool" where
  "cell_gt (Num x) t = (t < x)"
| "cell_gt PInf t = True"
| "cell_gt c t = False"

fun cell_lt :: "cell \<Rightarrow> real \<Rightarrow> bool" where
  "cell_lt (Num x) t = (x < t)"
| "cell_lt NInf t = True"
| "cell_lt c t = False"

text \<open>The finite value of a cell, if it has one.\<close>

fun num_of :: "cell \<Rightarrow> real option" where
  "num_of (Num x) = Some x"
| "num_of c = None"

subsection \<open>Columns of a table\<close>

text \<open>\<^verbatim>\<open>data[name]\<close> raises KeyError for a missing column; a numeric method on the Date
  column raises TypeError.\<close>

definition getitem :: "frame \<Rightarrow> string \<Rightarrow> error + column" where
  "getitem f name =
     (case map_of (columns f) name of None \<Rightarrow> Inl (KeyError name) | Some c \<Rightarrow> Inr c)"

definition float_column :: "frame \<Rightarrow> string \<Rightarrow> error + cell list" where
  "float_column f name =
     (case getitem f name of
        Inl e \<Rightarrow> Inl e
      | Inr (DateCol ds) \<Rightarrow> Inl (TypeError name)
      | Inr (FloatCol xs) \<Rightarrow> Inr xs)"

text \<open>\<^verbatim>\<open>data[name] = values\<close> overwrites the column where it stands, or appends it as
  the last column.\<close>

definition setitem :: "frame \<Rightarrow> string \<Rightarrow> column \<Rightarrow> frame" where
  "setitem f name c =
     f\<lparr>columns :=
         (if map_of (columns f) name = None then columns f @ [(name, c)]
          else map (\<lambda>(n, c'). if n = name then (n, c) else (n, c')) (columns f))\<rparr>"

text \<open>\<^verbatim>\<open>data[[n1, n2, ...]]\<close>: the named columns in the order asked for.\<close>

fun getitems :: "frame \<Rightarrow> string list \<Rightarrow> error + (string \<times> column) list" where
  "getitems f [] = Inr []"
| "getitems f (name # names) =
     (case getitem f name of
        Inl e \<Rightarrow> Inl e
      | Inr c \<Rightarrow> (case getitems f names of Inl e \<Rightarrow> Inl e | Inr cs \<Rightarrow> Inr ((name, c) # cs)))"

text \<open>An in-place loop body: \<open>g\<close> reads the object behind \<open>data\<close>, may print, and leaves
  the object changed for every holder of the reference.\<close>

definition in_place ::
  "(frame \<Rightarrow> unit outcome \<times> frame \<times> printed list) \<Rightarrow> ref \<Rightarrow> world \<Rightarrow> unit outcome \<times> world" where
  "in_place g r w =
     (case g (heap w r) of
        (res, f', out) \<Rightarrow> (res, w\<lparr>heap := (heap w)(r := f'), printed := printed w @ out\<rparr>))"

subsection \<open>pandas: percentage change and rolling statistics\<close>

text \<open>\<^verbatim>\<open>Series.shift(1)\<close>.\<close>

definition shift :: "cell list \<Rightarrow> cell list" where
  "shift xs = (if xs = [] then [] else NaN # butlast xs)"

text \<open>\<^verbatim>\<open>Series.pct_change()\<close>: gaps are forward filled first, then each value is divided
  by its predecessor and 1 is subtracted.\<close>

definition pct_change :: "cell list \<Rightarrow> cell list" where
  "pct_change xs =
     map (\<lambda>(x, p). cell_sub (cell_div x p) (Num 1)) (zip (ffill xs) (shift (ffill xs)))"

text \<open>\<^verbatim>\<open>Series.rolling(window=w)\<close>: the trailing window ending at row \<open>i\<close>; it yields a
  value only when it holds \<open>w\<close> finite observations (\<^verbatim>\<open>min_periods\<close> defaults to the
  window size, and infinities count as missing).\<close>

definition window_at :: "nat \<Rightarrow> cell list \<Rightarrow> nat \<Rightarrow> real list option" where
  "window_at w xs i =
     (if w = 0 \<or> i + 1 < w then None
      else those (map num_of (take w (drop (i + 1 - w) xs))))"

definition mean :: "real list \<Rightarrow> real" where
  "mean vs = sum_list vs / real (length vs)"

text \<open>The standard deviation with \<open>ddof\<close> delta degrees of freedom.\<close>

definition std :: "nat \<Rightarrow> real list \<Rightarrow> real" where
  "std ddof vs =
     sqrt (sum_list (map (\<lambda>v. (v - mean vs)\<^sup>2) vs) / real (length vs - ddof))"

definition rolling_mean :: "nat \<Rightarrow> cell list \<Rightarrow> cell list" where
  "rolling_mean w xs =
     map (\<lambda>i. case window_at w xs i of None \<Rightarrow> NaN | Some vs \<Rightarrow> Num (mean vs))
       [0..<length xs]"

definition rolling_std :: "nat \<Rightarrow> cell list \<Rightarrow> cell list" where
  "rolling_std w xs =
     map (\<lambda>i. case window_at w xs i of
                 None \<Rightarrow> NaN
               | Some vs \<Rightarrow> (if length vs < 2 then NaN else Num (std 1 vs)))
       [0..<length xs]"

text \<open>\<^verbatim>\<open>rolling(window=w)\<close> rejects a negative window.\<close>

definition rolling :: "int \<Rightarrow> error + nat" where
  "rolling window =
     (if window < 0 then Inl (ValueError ''window must be an integer 0 or greater'')
      else Inr (nat window))"

section \<open>Derived features\<close>

text \<open>Plotting is not modelled beyond the columns a plot call reads: \<^verbatim>\<open>data['Date']\<close>
  raises KeyError when the table has no such column.\<close>

definition times100 :: "cell list \<Rightarrow> cell list" where
  "times100 xs = map (\<lambda>x. cell_mul x (Num 100)) xs"

subsection \<open>calculate_daily_returns\<close>

definition calculate_daily_returns_body :: "frame \<Rightarrow> unit outcome \<times> frame \<times> printed list" where
  "calculate_daily_returns_body data =
     (case float_column data ''Close'' of
        Inl e \<Rightarrow> (Raise e, data, [])
      | Inr close \<Rightarrow>
          (let data' = setitem data ''Daily Return'' (FloatCol (times100 (pct_change close)))
           in case getitem data' ''Date'' of
                Inl e \<Rightarrow> (Raise e, data', [])
              | Inr d \<Rightarrow> (Return (), data', [])))"

definition calculate_daily_returns :: "world \<Rightarrow> unit outcome \<times> world" where
  "calculate_daily_returns w =
     for_items (\<lambda>ticker data. in_place calculate_daily_returns_body data) (data_frames w) w"

subsection \<open>analyze_volatility\<close>

definition analyze_volatility_body ::
  "int \<Rightarrow> frame \<Rightarrow> unit outcome \<times> frame \<times> printed list" where
  "analyze_volatility_body window data =
     (case float_column data ''Close'' of
        Inl e \<Rightarrow> (Raise e, data, [])
      | Inr close \<Rightarrow>
          (case rolling window of
             Inl e \<Rightarrow> (Raise e, data, [])
           | Inr n \<Rightarrow>
               (let data1 = setitem data ''Rolling Mean'' (FloatCol (rolling_mean n close));
                    data2 = setitem data1 ''Rolling Std'' (FloatCol (rolling_std n close))
                in case getitem data2 ''Date'' of
                     Inl e \<Rightarrow> (Raise e, data2, [])
                   | Inr d \<Rightarrow> (Return (), data2, []))))"

definition analyze_volatility :: "int \<Rightarrow> world \<Rightarrow> unit outcome \<times> world" where
  "analyze_volatility window w =
     for_items (\<lambda>ticker data. in_place (analyze_volatility_body window) data) (data_frames w) w"

subsection \<open>visualize_All_in_one\<close>

text \<open>Four loops, one per chart. The second writes the Daily Return column as the plain
  \<^verbatim>\<open>pct_change()\<close>, the third and fourth write the rolling statistics over 20 rows.\<close>

definition visualize_close_body :: "frame \<Rightarrow> unit outcome \<times> frame \<times> printed list" where
  "visualize_close_body data =
     (case getitem data ''Date'' of
        Inl e \<Rightarrow> (Raise e, data, [])
      | Inr d \<Rightarrow>
          (case getitem data ''Close'' of
             Inl e \<Rightarrow> (Raise e, data, [])
           | Inr c \<Rightarrow> (Return (), data, [])))"

definition visualize_return_body :: "frame \<Rightarrow> unit outcome \<times> frame \<times> printed list" where
  "visualize_return_body data =
     (case float_column data ''Close'' of
        Inl e \<Rightarrow> (Raise e, data, [])
      | Inr close \<Rightarrow>
          (let data' = setitem data ''Daily Return'' (FloatCol (pct_change close))
           in case getitem data' ''Date'' of
                Inl e \<Rightarrow> (Raise e, data', [])
              | Inr d \<Rightarrow> (Return (), data', [])))"

definition visualize_mean_body :: "frame \<Rightarrow> unit outcome \<times> frame \<times> printed list" where
  "visualize_mean_body data =
     (case float_column data ''Close'' of
        Inl e \<Rightarrow> (Raise e, data, [])
      | Inr close \<Rightarrow>
          (let data' = setitem data ''Rolling Mean'' (FloatCol (rolling_mean 20 close))
           in case getitem data' ''Date'' of
                Inl e \<Rightarrow> (Raise e, data', [])
              | Inr d \<Rightarrow> (Return (), data', [])))"

definition visualize_std_body :: "frame \<Rightarrow> unit outcome \<times> frame \<times> printed list" where
  "visualize_std_body data =
     (case float_column data ''Close'' of
        Inl e \<Rightarrow> (Raise e, data, [])
      | Inr close \<Rightarrow>
          (let data' = setitem data ''Rolling Std'' (FloatCol (rolling_std 20 close))
           in case getitem data' ''Date'' of
                Inl e \<Rightarrow> (Raise e, data', [])
              | Inr d \<Rightarrow> (Return (), data', [])))"

text \<open>Statements in sequence: the second runs only if the first returned.\<close>

definition then_do ::
  "(world \<Rightarrow> unit outcome \<times> world) \<Rightarrow> (world \<Rightarrow> unit outcome \<times> world) \<Rightarrow> world
     \<Rightarrow> unit outcome \<times> world" where
  "then_do p q w = (case p w of (Raise e, w') \<Rightarrow> (Raise e, w') | (Return u, w') \<Rightarrow> q w')"

definition visualize_All_in_one :: "world \<Rightarrow> unit outcome \<times> world" where
  "visualize_All_in_one =
     then_do (\<lambda>w. for_items (\<lambda>ticker data. in_place visualize_close_body data) (data_frames w) w)
    (then_do (\<lambda>w. for_items (\<lambda>ticker data. in_place visualize_return_body data) (data_frames w) w)
    (then_do (\<lambda>w. for_items (\<lambda>ticker data. in_place visualize_mean_body data) (data_frames w) w)
             (\<lambda>w. for_items (\<lambda>ticker data. in_place visualize_std_body data) (data_frames w) w)))"

subsection \<open>analyze_unusual_returns\<close>

text \<open>\<^verbatim>\<open>data[keep]\<close> followed by \<^verbatim>\<open>[[names]]\<close>: the selected rows of the named columns.\<close>

definition rows_of :: "frame \<Rightarrow> bool list \<Rightarrow> string list \<Rightarrow> error + frame" where
  "rows_of data keep names =
     (case getitems (select_rows keep data) names of
        Inl e \<Rightarrow> Inl e
      | Inr cs \<Rightarrow> Inr \<lparr>index = index (select_rows keep data), columns = cs\<rparr>)"

definition unusual :: "real \<Rightarrow> cell list \<Rightarrow> bool list" where
  "unusual threshold rs = map (\<lambda>r. cell_gt r threshold \<or> cell_lt r (- threshold)) rs"

definition analyze_unusual_returns_body ::
  "real \<Rightarrow> string \<Rightarrow> frame \<Rightarrow> unit outcome \<times> frame \<times> printed list" where
  "analyze_unusual_returns_body threshold ticker data =
     (case (if map_of (columns data) ''Daily Return'' = None then
              (case float_column data ''Close'' of
                 Inl e \<Rightarrow> Inl e
               | Inr close \<Rightarrow>
                   Inr (setitem data ''Daily Return'' (FloatCol (times100 (pct_change close)))))
            else Inr data) of
        Inl e \<Rightarrow> (Raise e, data, [])
      | Inr data' \<Rightarrow>
          (case float_column data' ''Daily Return'' of
             Inl e \<Rightarrow> (Raise e, data', [])
           | Inr rs \<Rightarrow>
               (case rows_of data' (unusual threshold rs) [''Date'', ''Close'', ''Daily Return''] of
                  Inl e \<Rightarrow> (Raise e, data', [Text (''Unusual Returns for '' @ ticker @ '':'')])
                | Inr t \<Rightarrow>
                    (Return (), data',
                     [Text (''Unusual Returns for '' @ ticker @ '':''), Table t]))))"

definition analyze_unusual_returns :: "real \<Rightarrow> world \<Rightarrow> unit outcome \<times> world" where
  "analyze_unusual_returns threshold w =
     for_items (\<lambda>ticker data. in_place (analyze_unusual_returns_body threshold ticker) data)
       (data_frames w) w"

subsection \<open>Well-formed tables and stores\<close>

definition length_column :: "column \<Rightarrow> nat" where
  "length_column c = (case c of DateCol ds \<Rightarrow> length ds | FloatCol xs \<Rightarrow> length xs)"

text \<open>Every column of a DataFrame has one cell per index label.\<close>

definition wf_frame :: "frame \<Rightarrow> bool" where
  "wf_frame f = list_all (\<lambda>(n, c). length_column c = nrows f) (columns f)"

text \<open>Every reference held by the dict denotes an allocated object.\<close>

definition wf_world :: "world \<Rightarrow> bool" where
  "wf_world w = list_all (\<lambda>(t, r). r < nxt w) (data_frames w)"

text \<open>The table \<^verbatim>\<open>data_frames[ticker]\<close> of a store, if the key is present.\<close>

definition table_of :: "world \<Rightarrow> string \<Rightarrow> frame option" where
  "table_of w ticker = map_option (heap w) (map_of (data_frames w) ticker)"

text \<open>Removing position \<open>k\<close> of a list, a column or an index.\<close>

definition remove_nth :: "nat \<Rightarrow> 'a list \<Rightarrow> 'a list" where
  "remove_nth k xs = take k xs @ drop (Suc k) xs"

definition remove_nth_column :: "nat \<Rightarrow> column \<Rightarrow> column" where
  "remove_nth_column k c = (case c of
      DateCol ds \<Rightarrow> DateCol (remove_nth k ds)
    | FloatCol xs \<Rightarrow> FloatCol (remove_nth k xs))"

subsection \<open>Sample data\<close>

text \<open>A table as \<^verbatim>\<open>separate_data\<close> builds it: a fresh row index, consecutive dates, and
  the given Close series; the other price columns repeat it and Volume is constant.\<close>

definition sample_frame :: "cell list \<Rightarrow> frame" where
  "sample_frame close =
     \<lparr>index = IntIndex [0..<length close],
      columns =
        [(''Date'', DateCol (map (\<lambda>i. Some (int i)) [0..<length close])),
         (''Close'', FloatCol close),
         (''Open'', FloatCol close),
         (''High'', FloatCol close),
         (''Low'', FloatCol close),
         (''Volume'', FloatCol (map (\<lambda>i. Num 5) [0..<length close]))]\<rparr>"

definition empty_frame :: frame where
  "empty_frame = \<lparr>index = IntIndex [], columns = []\<rparr>"

text \<open>A store holding one table under the key \<^verbatim>\<open>TSLA\<close>.\<close>

definition sample_world :: "cell list \<Rightarrow> world" where
  "sample_world close =
     \<lparr>heap = (\<lambda>r. empty_frame)(0 := sample_frame close), nxt = 1,
      data_frames = [(''TSLA'', 0)], printed = []\<rparr>"

text \<open>What \<^verbatim>\<open>analyze_unusual_returns\<close> needs of a table to return normally: a Date
  column, a numeric Close column and, if present, a numeric Daily Return column.\<close>


definition returns_ready :: "frame \<Rightarrow> bool" where
  "returns_ready f =
     (\<not> isl (getitem f ''Date'') \<and> \<not> isl (float_column f ''Close'')
      \<and> (if map_of (columns f) ''Daily Return'' = None then True
          else \<not> isl (float_column f ''Daily Return'')))"


text \<open>The sample store with a Daily Return column already written.\<close>


definition returns_world :: "cell list \<Rightarrow> cell list \<Rightarrow> world" where
  "returns_world close rs =
     \<lparr>heap = (\<lambda>r. empty_frame)
        (0 := setitem (sample_frame close) ''Daily Return'' (FloatCol rs)),
      nxt = 1, data_frames = [(''TSLA'', 0)], printed = []\<rparr>"


text \<open>What \<^verbatim>\<open>analyze_volatility\<close> and \<^verbatim>\<open>calculate_daily_returns\<close> need of a table
  to return normally: a numeric Close column and a Date column.\<close>


definition close_ready :: "frame \<Rightarrow> bool" where
  "close_ready f = (\<not> isl (float_column f ''Close'') \<and> \<not> isl (getitem f ''Date''))"
















































text \<open>The columns that \<^verbatim>\<open>normalize_data\<close> rescales.\<close>


definition numeric_columns :: "string list" where
  "numeric_columns = [''Close'', ''Open'', ''High'', ''Low'', ''Volume'']"








text \<open>The acquisition result: one table for all tickers, indexed by date, with one
  column per pair of a field and a ticker.\<close>


record history =
  h_index :: "date option list"
  h_columns :: "((string \<times> string) \<times> cell list) list"


text \<open>\<^verbatim>\<open>historical_data[field][ticker]\<close>.\<close>


definition hist_get :: "history \<Rightarrow> string \<Rightarrow> string \<Rightarrow> error + cell list" where
  "hist_get h field ticker =
     (case map_of (h_columns h) (field, ticker) of
        None \<Rightarrow> Inl (KeyError (field @ '', '' @ ticker))
      | Some xs \<Rightarrow> Inr xs)"


text \<open>\<^verbatim>\<open>data[name] = historical_data[field][ticker].values\<close>: an array of another length
  than the table is refused.\<close>


definition assign_values :: "frame \<Rightarrow> string \<Rightarrow> error + cell list \<Rightarrow> error + frame" where
  "assign_values data name values =
     (case values of
        Inl e \<Rightarrow> Inl e
      | Inr xs \<Rightarrow>
          (if length xs \<noteq> nrows data
           then Inl (ValueError ''Length of values does not match length of index'')
           else Inr (setitem data name (FloatCol xs))))"


text \<open>One round of the loop of \<^verbatim>\<open>separate_data\<close>: the Close series with its date index
  turned into the first column and a fresh row index, then the four other fields.\<close>


definition separate_one :: "history \<Rightarrow> string \<Rightarrow> error + frame" where
  "separate_one h ticker =
     (case hist_get h ''Close'' ticker of
        Inl e \<Rightarrow> Inl e
      | Inr close \<Rightarrow>
          (let data = \<lparr>index = IntIndex [0..<length close],
                       columns = [(''Date'', DateCol (h_index h)), (''Close'', FloatCol close)]\<rparr>
           in case assign_values data ''Open'' (hist_get h ''Open'' ticker) of
                Inl e \<Rightarrow> Inl e
              | Inr data1 \<Rightarrow>
                  (case assign_values data1 ''High'' (hist_get h ''High'' ticker) of
                     Inl e \<Rightarrow> Inl e
                   | Inr data2 \<Rightarrow>
                       (case assign_values data2 ''Low'' (hist_get h ''Low'' ticker) of
                          Inl e \<Rightarrow> Inl e
                        | Inr data3 \<Rightarrow>
                            assign_values data3 ''Volume''
                              (hist_get h ''Volume'' ticker)))))"


fun separate_loop ::
  "history \<Rightarrow> string list \<Rightarrow> (string \<times> ref) list \<Rightarrow> world
     \<Rightarrow> (string \<times> ref) list outcome \<times> world" where
  "separate_loop h [] d w = (Return d, w)"
| "separate_loop h (ticker # tickers) d w =
     (case separate_one h ticker of
        Inl e \<Rightarrow> (Raise e, w)
      | Inr data \<Rightarrow>
          (let (r, w') = alloc data w in separate_loop h tickers (dict_set d ticker r) w'))"


text \<open>\<^verbatim>\<open>separate_data\<close> builds a new dict and returns it.\<close>


definition separate_data :: "history \<Rightarrow> string list \<Rightarrow> world \<Rightarrow> unit outcome \<times> world" where
  "separate_data h tickers w =
     (case separate_loop h tickers [] w of
        (Raise e, w') \<Rightarrow> (Raise e, w')
      | (Return d, w') \<Rightarrow> (Return (), w'\<lparr>data_frames := d\<rparr>))"


text \<open>Every column of the acquisition result has one cell per date, and every field of
  every requested ticker is present.\<close>


definition wf_history :: "history \<Rightarrow> bool" where
  "wf_history h = list_all (\<lambda>(k, xs). length xs = length (h_index h)) (h_columns h)"


definition covers :: "history \<Rightarrow> string list \<Rightarrow> bool" where
  "covers h tickers =
     list_all (\<lambda>t. list_all (\<lambda>f. map_of (h_columns h) (f, t) \<noteq> None) numeric_columns) tickers"


text \<open>The table of one ticker, read off the acquisition result.\<close>


definition ticker_table :: "history \<Rightarrow> string \<Rightarrow> frame" where
  "ticker_table h t =
     \<lparr>index = IntIndex [0..<length (h_index h)],
      columns =
        [(''Date'', DateCol (h_index h)),
         (''Close'', FloatCol (the (map_of (h_columns h) (''Close'', t)))),
         (''Open'', FloatCol (the (map_of (h_columns h) (''Open'', t)))),
         (''High'', FloatCol (the (map_of (h_columns h) (''High'', t)))),
         (''Low'', FloatCol (the (map_of (h_columns h) (''Low'', t)))),
         (''Volume'', FloatCol (the (map_of (h_columns h) (''Volume'', t))))]\<rparr>"


text \<open>An acquisition result for two tickers over two dates, with one gap, and a
  store that holds nothing yet.\<close>


definition sample_history :: history where
  "sample_history =
     \<lparr>h_index = [Some 0, Some 1],
      h_columns =
        [((''Close'', ''TSLA''), [Num 10, Num 11]), ((''Close'', ''SPY''), [Num 20, NaN]),
         ((''Open'', ''TSLA''), [Num 12, Num 13]), ((''Open'', ''SPY''), [Num 22, Num 23]),
         ((''High'', ''TSLA''), [Num 14, Num 15]), ((''High'', ''SPY''), [Num 24, Num 25]),
         ((''Low'', ''TSLA''), [Num 8, Num 9]), ((''Low'', ''SPY''), [Num 18, Num 19]),
         ((''Volume'', ''TSLA''), [Num 100, Num 200]),
         ((''Volume'', ''SPY''), [Num 300, Num 400])]\<rparr>"


definition empty_world :: world where
  "empty_world = \<lparr>heap = (\<lambda>r. empty_frame), nxt = 0, data_frames = [], printed = []\<rparr>"


text \<open>The element type of a column, as \<^verbatim>\<open>data.dtypes\<close> reports it.\<close>


definition dtype :: "column \<Rightarrow> string" where
  "dtype c = (case c of DateCol ds \<Rightarrow> ''datetime64[ns]'' | FloatCol xs \<Rightarrow> ''float64'')"


text \<open>\<^verbatim>\<open>data.isnull().sum()\<close>: the number of missing cells of every column.\<close>


definition null_counts :: "frame \<Rightarrow> (string \<times> nat) list" where
  "null_counts f = map (\<lambda>(n, c). (n, length (filter (\<lambda>b. b) (isnull c)))) (columns f)"


text \<open>The three inspection reports. Each loop body prints a header and a report computed
  from the table; none assigns to the table or to the dict. The summary statistics of
  \<^verbatim>\<open>data.describe()\<close> are a parameter: a function of the table that yields a table of
  statistics or raises.\<close>


definition check_basic_statistics_body ::
  "(frame \<Rightarrow> error + frame) \<Rightarrow> string \<Rightarrow> frame \<Rightarrow> unit outcome \<times> frame \<times> printed list" where
  "check_basic_statistics_body describe ticker data =
     (case describe data of
        Inl e \<Rightarrow> (Raise e, data, [Text (''Basic Statistics for '' @ ticker @ '':'')])
      | Inr t \<Rightarrow> (Return (), data, [Text (''Basic Statistics for '' @ ticker @ '':''), Table t]))"


definition check_basic_statistics ::
  "(frame \<Rightarrow> error + frame) \<Rightarrow> world \<Rightarrow> unit outcome \<times> world" where
  "check_basic_statistics describe w =
     for_items (\<lambda>ticker data. in_place (check_basic_statistics_body describe ticker) data)
       (data_frames w) w"


definition ensure_data_types_body ::
  "string \<Rightarrow> frame \<Rightarrow> unit outcome \<times> frame \<times> printed list" where
  "ensure_data_types_body ticker data =
     (Return (), data,
      [Text (''Data Types for '' @ ticker @ '':''),
       Dtypes (map (\<lambda>(n, c). (n, dtype c)) (columns data))])"


definition ensure_data_types :: "world \<Rightarrow> unit outcome \<times> world" where
  "ensure_data_types w =
     for_items (\<lambda>ticker data. in_place (ensure_data_types_body ticker) data) (data_frames w) w"


definition check_missing_values_body ::
  "string \<Rightarrow> frame \<Rightarrow> unit outcome \<times> frame \<times> printed list" where
  "check_missing_values_body ticker data =
     (Return (), data,
      [Text (''Missing Values for '' @ ticker @ '':''), Counts (null_counts data)])"


definition check_missing_values :: "world \<Rightarrow> unit outcome \<times> world" where
  "check_missing_values w =
     for_items (\<lambda>ticker data. in_place (check_missing_values_body ticker) data)
       (data_frames w) w"


text \<open>The order of the rows after \<^verbatim>\<open>sort_values(by)\<close>: ascending in the key column,
  rows without a key last. Equal keys keep their order.\<close>


definition row_order :: "column \<Rightarrow> nat list" where
  "row_order c =
     (case c of
        DateCol ds \<Rightarrow>
          sort_key (\<lambda>i. the (ds ! i)) (filter (\<lambda>i. ds ! i \<noteq> None) [0..<length ds])
          @ filter (\<lambda>i. ds ! i = None) [0..<length ds]
      | FloatCol xs \<Rightarrow>
          filter (\<lambda>i. xs ! i = NInf) [0..<length xs]
          @ sort_key (\<lambda>i. the (num_of (xs ! i)))
              (filter (\<lambda>i. num_of (xs ! i) \<noteq> None) [0..<length xs])
          @ filter (\<lambda>i. xs ! i = PInf) [0..<length xs]
          @ filter (\<lambda>i. xs ! i = NaN) [0..<length xs])"


text \<open>The rows of a table at the given positions, labels included.\<close>


definition take_rows :: "nat list \<Rightarrow> frame \<Rightarrow> frame" where
  "take_rows order f =
     \<lparr>index =
        (case index f of
           IntIndex ls \<Rightarrow> IntIndex (map (\<lambda>i. ls ! i) order)
         | DateIndex ds \<Rightarrow> DateIndex (map (\<lambda>i. ds ! i) order)
         | FloatIndex xs \<Rightarrow> FloatIndex (map (\<lambda>i. xs ! i) order)),
      columns =
        map (\<lambda>(n, c). (n, case c of
                              DateCol ds \<Rightarrow> DateCol (map (\<lambda>i. ds ! i) order)
                            | FloatCol xs \<Rightarrow> FloatCol (map (\<lambda>i. xs ! i) order)))
          (columns f)\<rparr>"


text \<open>\<^verbatim>\<open>data.sort_values(by)\<close> returns a new table and leaves \<^verbatim>\<open>data\<close> alone.\<close>


definition sort_values :: "frame \<Rightarrow> string \<Rightarrow> error + frame" where
  "sort_values f key =
     (case getitem f key of Inl e \<Rightarrow> Inl e | Inr c \<Rightarrow> Inr (take_rows (row_order c) f))"


text \<open>The table after \<^verbatim>\<open>set_index(name)\<close>: the column becomes the index and leaves the
  columns.\<close>


definition set_index :: "frame \<Rightarrow> string \<Rightarrow> error + frame" where
  "set_index f name =
     (case getitem f name of
        Inl e \<Rightarrow> Inl e
      | Inr c \<Rightarrow>
          Inr \<lparr>index = (case c of DateCol ds \<Rightarrow> DateIndex ds | FloatCol xs \<Rightarrow> FloatIndex xs),
               columns = filter (\<lambda>(n, c). n \<noteq> name) (columns f)\<rparr>)"


text \<open>The loop body of \<^verbatim>\<open>decompose_time_series_all_in_one\<close>. The assignment
  \<^verbatim>\<open>data = data.sort_values('Date')\<close> binds the local name to a new object;
  \<^verbatim>\<open>data.set_index('Date', inplace=True)\<close> then changes that new object. The external
  decomposition routine is a parameter: a function of the Close series and the period
  that yields the components or raises. The components only feed the charts.\<close>


definition decompose_body ::
  "(cell list \<Rightarrow> int \<Rightarrow> error + 'a) \<Rightarrow> int \<Rightarrow> string \<Rightarrow> ref \<Rightarrow> world
     \<Rightarrow> unit outcome \<times> world" where
  "decompose_body seasonal_decompose period ticker data w =
     (case sort_values (heap w data) ''Date'' of
        Inl e \<Rightarrow> (Raise e, w)
      | Inr sorted_data \<Rightarrow>
          (let (data', w1) = alloc sorted_data w
           in case set_index (heap w1 data') ''Date'' of
                Inl e \<Rightarrow> (Raise e, w1)
              | Inr indexed \<Rightarrow>
                  (let w2 = w1\<lparr>heap := (heap w1)(data' := indexed)\<rparr>
                   in case float_column (heap w2 data') ''Close'' of
                        Inl e \<Rightarrow> (Raise e, w2)
                      | Inr close \<Rightarrow>
                          (case seasonal_decompose close period of
                             Inl e \<Rightarrow> (Raise e, w2)
                           | Inr components \<Rightarrow> (Return (), w2)))))"


definition decompose_time_series_all_in_one ::
  "(cell list \<Rightarrow> int \<Rightarrow> error + 'a) \<Rightarrow> int \<Rightarrow> world \<Rightarrow> unit outcome \<times> world" where
  "decompose_time_series_all_in_one seasonal_decompose period w =
     for_items (decompose_body seasonal_decompose period) (data_frames w) w"


text \<open>A store whose one table has its rows out of date order.\<close>


definition unsorted_frame :: frame where
  "unsorted_frame =
     \<lparr>index = IntIndex [0, 1, 2],
      columns = [(''Date'', DateCol [Some 2, Some 0, Some 1]),
                 (''Close'', FloatCol [Num 30, Num 10, Num 20])]\<rparr>"


definition unsorted_world :: world where
  "unsorted_world =
     \<lparr>heap = (\<lambda>r. empty_frame)(0 := unsorted_frame), nxt = 1,
      data_frames = [(''TSLA'', 0)], printed = []\<rparr>"


section \<open>Properties of missing-value handling\<close>

lemma map_of_dict_set:
  "map_of (dict_set d k v) k' = (if k' = k then Some v else map_of d k')"
  by (induction d) auto

lemma hmv_body_drop:
  "handle_missing_values_body ''drop'' t r w =
     (Return (), w\<lparr>heap := (heap w)(nxt w := dropna (heap w r)), nxt := Suc (nxt w),
                    data_frames := dict_set (data_frames w) t (nxt w)\<rparr>)"
  by (simp add: handle_missing_values_body_def alloc_def)

lemma hmv_drop_loop:
  assumes "distinct (map fst items)" and "list_all (\<lambda>(t, r). r < nxt w) items"
  shows "\<exists>w'. for_items (handle_missing_values_body ''drop'') items w = (Return (), w')
           \<and> nxt w \<le> nxt w'
           \<and> (\<forall>x<nxt w. heap w' x = heap w x)
           \<and> (\<forall>t. t \<notin> fst ` set items \<longrightarrow> map_of (data_frames w') t = map_of (data_frames w) t)
           \<and> (\<forall>(t, r)\<in>set items. \<exists>r'. map_of (data_frames w') t = Some r'
                   \<and> heap w' r' = dropna (heap w r))"
  using assms
proof (induction items arbitrary: w)
  case Nil
  then show ?case by simp
next
  case (Cons p items)
  obtain t r where p: "p = (t, r)" by (cases p)
  define w1 where "w1 = w\<lparr>heap := (heap w)(nxt w := dropna (heap w r)), nxt := Suc (nxt w),
                    data_frames := dict_set (data_frames w) t (nxt w)\<rparr>"
  have d: "distinct (map fst items)" and tn: "t \<notin> fst ` set items"
    using Cons.prems(1) p by auto
  have rlt: "r < nxt w" using Cons.prems(2) p by simp
  have la: "list_all (\<lambda>(t, r). r < nxt w1) items"
    using Cons.prems(2) by (auto simp: w1_def list_all_iff)
  from Cons.IH[OF d la] obtain w' where
    run: "for_items (handle_missing_values_body ''drop'') items w1 = (Return (), w')"
    and mono: "nxt w1 \<le> nxt w'"
    and old: "\<forall>x<nxt w1. heap w' x = heap w1 x"
    and other: "\<forall>t. t \<notin> fst ` set items \<longrightarrow> map_of (data_frames w') t = map_of (data_frames w1) t"
    and each: "\<forall>(t, r)\<in>set items. \<exists>r'. map_of (data_frames w') t = Some r'
                   \<and> heap w' r' = dropna (heap w1 r)"
    by blast
  have step: "for_items (handle_missing_values_body ''drop'') (p # items) w = (Return (), w')"
    using run by (simp add: p hmv_body_drop w1_def)
  have c1: "nxt w \<le> nxt w'" using mono by (simp add: w1_def)
  have c2: "\<forall>x<nxt w. heap w' x = heap w x" using old by (simp add: w1_def)
  have c3: "\<forall>s. s \<notin> fst ` set (p # items) \<longrightarrow> map_of (data_frames w') s = map_of (data_frames w) s"
    using other by (simp add: w1_def p map_of_dict_set)
  have here: "map_of (data_frames w') t = Some (nxt w) \<and> heap w' (nxt w) = dropna (heap w r)"
    using other tn old by (simp add: w1_def map_of_dict_set)
  have rest: "\<forall>(s, q)\<in>set items. \<exists>r'. map_of (data_frames w') s = Some r'
                   \<and> heap w' r' = dropna (heap w q)"
  proof (clarify)
    fix s q assume m: "(s, q) \<in> set items"
    then have "q < nxt w" using Cons.prems(2) by (auto simp: list_all_iff)
    then have "heap w1 q = heap w q" by (simp add: w1_def)
    with each m show "\<exists>r'. map_of (data_frames w') s = Some r' \<and> heap w' r' = dropna (heap w q)"
      by fastforce
  qed
  have c4: "\<forall>(s, q)\<in>set (p # items). \<exists>r'. map_of (data_frames w') s = Some r'
                   \<and> heap w' r' = dropna (heap w q)"
    using here rest by (simp add: p)
  from step c1 c2 c3 c4 show ?case by blast
qed


lemma select_all: "length ks = length xs \<Longrightarrow> list_all (\<lambda>b. b) ks \<Longrightarrow> select ks xs = xs"
  by (induction ks xs rule: list_induct2) (auto simp: select_def)

lemma select_one_removed:
  "k < length xs \<Longrightarrow> select (map (\<lambda>i. i \<noteq> k) [0..<length xs]) xs = remove_nth k xs"
proof (induction xs arbitrary: k)
  case Nil then show ?case by simp
next
  case (Cons x xs)
  have up: "map (\<lambda>i. i \<noteq> k) [0..<length (x # xs)] = (0 \<noteq> k) # map (\<lambda>i. Suc i \<noteq> k) [0..<length xs]"
    by (simp add: map_upt_Suc del: upt_Suc)
  show ?case
  proof (cases k)
    case 0
    have "select (map (\<lambda>i. True) [0..<length xs]) xs = xs"
      by (rule select_all) (simp_all add: list_all_iff)
    with 0 up show ?thesis by (simp add: select_def remove_nth_def)
  next
    case (Suc k')
    with Cons.prems have "k' < length xs" by simp
    from Cons.IH[OF this] Suc up show ?thesis
      by (simp add: select_def remove_nth_def)
  qed
qed

lemma select_column_one_removed:
  "k < length_column c \<Longrightarrow>
     select_column (map (\<lambda>i. i \<noteq> k) [0..<length_column c]) c = remove_nth_column k c"
  by (cases c) (simp_all add: select_column_def remove_nth_column_def length_column_def
      select_one_removed)

lemma remove_nth_upt: "k < n \<Longrightarrow> remove_nth k [0..<n] = [0..<k] @ [Suc k..<n]"
  by (simp add: remove_nth_def take_upt)

lemma complete_rows_one_missing:
  assumes "nrows f = n"
    and "\<forall>i<n. list_all (\<lambda>(name, c). \<not> isnull c ! i) (columns f) = (i \<noteq> k)"
  shows "complete_rows f = map (\<lambda>i. i \<noteq> k) [0..<n]"
  using assms by (simp add: complete_rows_def)

lemma dropna_one_row:
  assumes wf: "wf_frame f" and ix: "index f = IntIndex [0..<n]" and k: "k < n"
    and rows: "complete_rows f = map (\<lambda>i. i \<noteq> k) [0..<n]"
  shows "dropna f = \<lparr>index = IntIndex ([0..<k] @ [Suc k..<n]),
                     columns = map (\<lambda>(name, c). (name, remove_nth_column k c)) (columns f)\<rparr>"
proof -
  have n: "nrows f = n" using ix by (simp add: nrows_def length_index_def)
  have "select_index (map (\<lambda>i. i \<noteq> k) [0..<n]) (index f) = IntIndex ([0..<k] @ [Suc k..<n])"
    using select_one_removed[of k "[0..<n]"] k
    by (simp add: ix select_index_def remove_nth_upt)
  moreover have "map (\<lambda>(name, c). (name, select_column (map (\<lambda>i. i \<noteq> k) [0..<n]) c)) (columns f)
      = map (\<lambda>(name, c). (name, remove_nth_column k c)) (columns f)"
  proof (rule map_cong[OF refl])
    fix p assume "p \<in> set (columns f)"
    then have "length_column (snd p) = n"
      using wf n by (auto simp: wf_frame_def list_all_iff)
    then show "(case p of (name, c) \<Rightarrow> (name, select_column (map (\<lambda>i. i \<noteq> k) [0..<n]) c))
        = (case p of (name, c) \<Rightarrow> (name, remove_nth_column k c))"
      using select_column_one_removed[of k "snd p"] k by (cases p) simp
  qed
  ultimately show ?thesis by (simp add: dropna_def select_rows_def rows)
qed

lemma labels_contiguous_iff:
  "k < n \<Longrightarrow> ([0..<k] @ [Suc k..<n] = [0..<n - 1]) = (k = n - 1)"
proof
  assume k: "k < n" and eq: "[0..<k] @ [Suc k..<n] = [0..<n - 1]"
  show "k = n - 1"
  proof (rule ccontr)
    assume "k \<noteq> n - 1"
    with k have lt: "k < n - 1" by simp
    then have "([0..<k] @ [Suc k..<n]) ! k = Suc k" by (simp add: nth_append)
    moreover have "[0..<n - 1] ! k = k" using lt by simp
    ultimately show False using eq by simp
  qed
next
  assume "k < n" and "k = n - 1"
  then show "[0..<k] @ [Suc k..<n] = [0..<n - 1]" by simp
qed

text \<open>
  Claim C2, as the code has it. \<^verbatim>\<open>handle_missing_values(data_frames, 'drop')\<close> removes
  the rows that have a missing value in any column of the table, the Date column and
  derived columns included. On a table with a fresh row index \<open>0..n-1\<close> in which row
  \<open>k\<close> is the only row with a missing value in any column it returns normally; the
  ticker's new table is the old one without row \<open>k\<close>, and the surviving rows keep the
  labels they had: \<open>0..k-1\<close> and \<open>k+1..n-1\<close>. The labels are the contiguous run
  \<open>0..n-2\<close> exactly when the dropped row was the last one.
\<close>

theorem handle_missing_values_drop_keeps_labels:
  assumes "wf_world w" and "distinct (map fst (data_frames w))"
    and "map_of (data_frames w) ticker = Some r"
    and "wf_frame (heap w r)" and "index (heap w r) = IntIndex [0..<n]" and "k < n"
    and "\<forall>i<n. list_all (\<lambda>(name, c). \<not> isnull c ! i) (columns (heap w r)) = (i \<noteq> k)"
  shows "\<exists>w' f'. handle_missing_values ''drop'' w = (Return (), w')
           \<and> table_of w' ticker = Some f'
           \<and> index f' = IntIndex ([0..<k] @ [Suc k..<n])
           \<and> columns f' = map (\<lambda>(name, c). (name, remove_nth_column k c)) (columns (heap w r))
           \<and> (index f' = IntIndex [0..<n - 1]) = (k = n - 1)"
proof -
  have la: "list_all (\<lambda>(t, r). r < nxt w) (data_frames w)"
    using assms(1) by (simp add: wf_world_def)
  from hmv_drop_loop[OF assms(2) la] obtain w' where
    run: "for_items (handle_missing_values_body ''drop'') (data_frames w) w = (Return (), w')"
    and each: "\<forall>(t, r)\<in>set (data_frames w). \<exists>r'. map_of (data_frames w') t = Some r'
                   \<and> heap w' r' = dropna (heap w r)"
    by blast
  have "(ticker, r) \<in> set (data_frames w)" using assms(3) by (rule map_of_SomeD)
  with each obtain r' where r': "map_of (data_frames w') ticker = Some r'"
    and h: "heap w' r' = dropna (heap w r)" by fastforce
  have n: "nrows (heap w r) = n" using assms(5) by (simp add: nrows_def length_index_def)
  have rows: "complete_rows (heap w r) = map (\<lambda>i. i \<noteq> k) [0..<n]"
    by (rule complete_rows_one_missing[OF n assms(7)])
  note d = dropna_one_row[OF assms(4) assms(5) assms(6) rows]
  have "table_of w' ticker = Some (dropna (heap w r))"
    using r' h by (simp add: table_of_def)
  then show ?thesis
    using run d labels_contiguous_iff[OF assms(6)]
    by (simp add: handle_missing_values_def)
qed

lemma upt_numeral: "[i..<numeral k] = (if i < numeral k then i # [Suc i..<numeral k] else [])"
  by (rule upt_rec)

lemma all_less_numeral: "(\<forall>i<numeral k. P i) = (\<forall>i\<in>set [0..<numeral k]. P i)"
  by auto

text \<open>The theorem at a three-row table whose middle Close value is missing.\<close>

theorem handle_missing_values_drop_keeps_labels_witness:
  "\<exists>w' f'. handle_missing_values ''drop'' (sample_world [Num 1, NaN, Num 3]) = (Return (), w')
     \<and> table_of w' ''TSLA'' = Some f'
     \<and> index f' = IntIndex [0, 2]
     \<and> map_of (columns f') ''Close'' = Some (FloatCol [Num 1, Num 3])"
proof -
  have "\<exists>w' f'. handle_missing_values ''drop'' (sample_world [Num 1, NaN, Num 3]) = (Return (), w')
     \<and> table_of w' ''TSLA'' = Some f'
     \<and> index f' = IntIndex ([0..<1] @ [Suc 1..<3])
     \<and> columns f' = map (\<lambda>(name, c). (name, remove_nth_column 1 c))
           (columns (heap (sample_world [Num 1, NaN, Num 3]) 0))
     \<and> (index f' = IntIndex [0..<3 - 1]) = ((1::nat) = 3 - 1)"
    by (rule handle_missing_values_drop_keeps_labels)
      (simp_all add: sample_world_def sample_frame_def wf_world_def wf_frame_def nrows_def
        length_index_def length_column_def isnull_def all_less_numeral upt_numeral)
  then obtain w' f' where
    a: "handle_missing_values ''drop'' (sample_world [Num 1, NaN, Num 3]) = (Return (), w')"
    and b: "table_of w' ''TSLA'' = Some f'"
    and c: "index f' = IntIndex ([0..<1] @ [Suc 1..<3])"
    and d: "columns f' = map (\<lambda>(name, c). (name, remove_nth_column 1 c))
           (columns (heap (sample_world [Num 1, NaN, Num 3]) 0))"
    by blast
  have c': "index f' = IntIndex [0, 2]" using c by (simp add: upt_numeral)
  have d': "map_of (columns f') ''Close'' = Some (FloatCol [Num 1, Num 3])"
    by (simp add: d sample_world_def sample_frame_def remove_nth_column_def remove_nth_def)
  from a b c' d' show ?thesis by blast
qed

text \<open>Claim C2 as stated fails on the code in two ways. It asks for the labels
  \<open>0..n-2\<close>: dropping the middle row of a three-row table leaves the labels \<open>0\<close> and
  \<open>2\<close>, not \<open>0\<close> and \<open>1\<close>. And it counts gaps in the tracked numeric columns only,
  while \<^verbatim>\<open>dropna()\<close> is called without a subset: after \<^verbatim>\<open>calculate_daily_returns\<close>
  on Close = [100, NaN, 99] the tracked columns have their one gap in row 1, the
  Daily Return column has one in row 0, and both rows are dropped, leaving label \<open>2\<close>.\<close>

theorem handle_missing_values_drop_reindex_counterexample:
  "map_option index (table_of (snd (handle_missing_values ''drop''
       (sample_world [Num 1, NaN, Num 3]))) ''TSLA'') = Some (IntIndex [0, 2])
   \<and> map_option index (table_of (snd (handle_missing_values ''drop''
       (sample_world [Num 1, NaN, Num 3]))) ''TSLA'') \<noteq> Some (IntIndex [0..<3 - 1])
   \<and> map (\<lambda>name. map_option isnull (map_of (columns (heap (snd (calculate_daily_returns
           (sample_world [Num 100, NaN, Num 99]))) 0)) name))
         [''Close'', ''Open'', ''High'', ''Low'', ''Volume'', ''Daily Return'']
       = [Some [False, True, False], Some [False, True, False], Some [False, True, False],
          Some [False, True, False], Some [False, False, False], Some [True, False, False]]
   \<and> map_option index (table_of (snd (handle_missing_values ''drop''
       (snd (calculate_daily_returns (sample_world [Num 100, NaN, Num 99]))))) ''TSLA'')
       = Some (IntIndex [2])"
  by (simp add: handle_missing_values_def handle_missing_values_body_def alloc_def table_of_def
      sample_world_def sample_frame_def dropna_def complete_rows_def select_rows_def select_index_def
      select_def nrows_def length_index_def isnull_def upt_numeral
      calculate_daily_returns_def calculate_daily_returns_body_def in_place_def float_column_def
      getitem_def setitem_def pct_change_def ffill_def shift_def times100_def)

text \<open>
  Claim C3 says that the method \<^verbatim>\<open>interpolate\<close> fills interior gaps by linear
  interpolation and raises nothing. The code passes the method string on to
  \<^verbatim>\<open>fillna(method=...)\<close>, which rejects it: on a table with an interior gap the call
  raises a ValueError and the table is left as it was, gap included.
\<close>

theorem handle_missing_values_interpolate_raises:
  "handle_missing_values ''interpolate'' (sample_world [Num 1, NaN, Num 3]) =
     (Raise (ValueError ''Invalid fill method. Expecting pad (ffill) or backfill (bfill).''),
      sample_world [Num 1, NaN, Num 3])"
  by (simp add: handle_missing_values_def handle_missing_values_body_def sample_world_def
      fillna_def)

section \<open>Properties of the derived features\<close>


lemma for_items_in_place:
  assumes "distinct (map snd items)"
    and "\<forall>(t, r)\<in>set items. fst (g t (heap w r)) = Return ()"
  shows "\<exists>w'. for_items (\<lambda>t r. in_place (g t) r) items w = (Return (), w')
     \<and> data_frames w' = data_frames w \<and> nxt w' = nxt w
     \<and> (\<forall>(t, r)\<in>set items. heap w' r = fst (snd (g t (heap w r))))
     \<and> (\<forall>x. x \<notin> snd ` set items \<longrightarrow> heap w' x = heap w x)
     \<and> printed w' = printed w @ concat (map (\<lambda>(t, r). snd (snd (g t (heap w r)))) items)"
  using assms
proof (induction items arbitrary: w)
  case Nil
  then show ?case by simp
next
  case (Cons p items)
  obtain t r where p: "p = (t, r)" by (cases p)
  obtain f' out where g: "g t (heap w r) = (Return (), f', out)"
    using Cons.prems(2) p by (cases "g t (heap w r)") auto
  define w1 where "w1 = w\<lparr>heap := (heap w)(r := f'), printed := printed w @ out\<rparr>"
  have d: "distinct (map snd items)" and rn: "r \<notin> snd ` set items"
    using Cons.prems(1) p by (auto simp: image_iff)
  have same: "\<And>s q. (s, q) \<in> set items \<Longrightarrow> heap w1 q = heap w q"
    using rn by (auto simp: w1_def image_iff)
  have ok: "\<forall>(t, r)\<in>set items. fst (g t (heap w1 r)) = Return ()"
    using Cons.prems(2) same by auto
  from Cons.IH[OF d ok] obtain w' where
    run: "for_items (\<lambda>t r. in_place (g t) r) items w1 = (Return (), w')"
    and df: "data_frames w' = data_frames w1" and nx: "nxt w' = nxt w1"
    and each: "\<forall>(t, r)\<in>set items. heap w' r = fst (snd (g t (heap w1 r)))"
    and other: "\<forall>x. x \<notin> snd ` set items \<longrightarrow> heap w' x = heap w1 x"
    and pr: "printed w' = printed w1 @ concat (map (\<lambda>(t, r). snd (snd (g t (heap w1 r)))) items)"
    by blast
  have step: "for_items (\<lambda>t r. in_place (g t) r) (p # items) w = (Return (), w')"
    using run by (simp add: p in_place_def g w1_def)
  have c1: "data_frames w' = data_frames w" "nxt w' = nxt w"
    using df nx by (simp_all add: w1_def)
  have c2: "\<forall>(t, r)\<in>set (p # items). heap w' r = fst (snd (g t (heap w r)))"
    using each other rn same by (auto simp: p g w1_def)
  have c3: "\<forall>x. x \<notin> snd ` set (p # items) \<longrightarrow> heap w' x = heap w x"
    using other by (auto simp: p w1_def)
  have eq: "map (\<lambda>(t, r). snd (snd (g t (heap w1 r)))) items
      = map (\<lambda>(t, r). snd (snd (g t (heap w r)))) items"
    using same by (intro map_cong[OF refl]) auto
  have pw1: "printed w1 = printed w @ out" by (simp add: w1_def)
  have "printed w' = (printed w @ out) @ concat (map (\<lambda>(t, r). snd (snd (g t (heap w r)))) items)"
    using pr unfolding eq pw1 .
  then have c4: "printed w' = printed w @ concat (map (\<lambda>(t, r). snd (snd (g t (heap w r)))) (p # items))"
    by (simp add: p g)
  from step c1 c2 c3 c4 show ?case by blast
qed



text \<open>
  Claim C4 gives the Daily Return column as the percentage
  \<open>(close[i] - close[i-1]) / close[i-1] * 100\<close> on every path that computes it. On
  Close = [100, 110, 99] \<^verbatim>\<open>calculate_daily_returns\<close> writes [NaN, 10, -10], while
  \<^verbatim>\<open>visualize_All_in_one\<close> writes the fractions [NaN, 0.1, -0.1]: its assignment lacks
  the factor 100 that the two sibling paths apply.
\<close>


lemmas frame_eval =
  sample_world_def sample_frame_def in_place_def float_column_def getitem_def setitem_def
  pct_change_def ffill_def shift_def times100_def table_of_def


theorem daily_return_scale_differs:
  "fst (calculate_daily_returns (sample_world [Num 100, Num 110, Num 99])) = Return ()
   \<and> map_of (columns (heap (snd (calculate_daily_returns
         (sample_world [Num 100, Num 110, Num 99]))) 0)) ''Daily Return''
       = Some (FloatCol [NaN, Num 10, Num (- 10)])
   \<and> fst (visualize_All_in_one (sample_world [Num 100, Num 110, Num 99])) = Return ()
   \<and> map_of (columns (heap (snd (visualize_All_in_one
         (sample_world [Num 100, Num 110, Num 99]))) 0)) ''Daily Return''
       = Some (FloatCol [NaN, Num (1 / 10), Num (- (1 / 10))])"
  by (simp add: calculate_daily_returns_def calculate_daily_returns_body_def
      visualize_All_in_one_def then_do_def visualize_close_body_def visualize_return_body_def
      visualize_mean_body_def visualize_std_body_def frame_eval)



lemma map_of_map_values:
  "map_of (map (\<lambda>(k, v). (k, g v)) xs) n = map_option g (map_of xs n)"
  by (induction xs) auto


lemma map_of_select_rows:
  "map_of (columns (select_rows keep f)) n = map_option (select_column keep) (map_of (columns f) n)"
  by (simp add: select_rows_def map_of_map_values)


lemma getitem_select_rows:
  "getitem f n = Inr c \<Longrightarrow> getitem (select_rows keep f) n = Inr (select_column keep c)"
  by (auto simp: getitem_def map_of_select_rows split: option.splits)


lemma not_isl_getitem: "\<not> isl (getitem f n) \<Longrightarrow> \<exists>c. getitem f n = Inr c"
  by (cases "getitem f n") auto


lemma not_isl_float_column:
  "\<not> isl (float_column f n) \<Longrightarrow> \<exists>xs. float_column f n = Inr xs \<and> getitem f n = Inr (FloatCol xs)
      \<and> map_of (columns f) n = Some (FloatCol xs)"
  by (cases "float_column f n")
     (auto simp: float_column_def getitem_def split: sum.splits column.splits option.splits)


lemma rows_of_three:
  assumes "getitem f a = Inr ca" "getitem f b = Inr cb" "getitem f c = Inr cc"
  shows "rows_of f keep [a, b, c] =
     Inr \<lparr>index = select_index keep (index f),
          columns = [(a, select_column keep ca), (b, select_column keep cb),
                     (c, select_column keep cc)]\<rparr>"
  using assms by (simp add: rows_of_def getitem_select_rows) (simp add: select_rows_def)


lemma select_map_filter: "select (map P xs) xs = filter P xs"
  by (induction xs) (simp_all add: select_def)

lemma unusual_as_map:
  "unusual threshold rs =
     map (\<lambda>c. case c of Num x \<Rightarrow> threshold < x \<or> x < - threshold
             | PInf \<Rightarrow> True | NInf \<Rightarrow> True | NaN \<Rightarrow> False) rs"
  unfolding unusual_def
proof (rule map_cong[OF refl])
  fix c :: cell
  show "(cell_gt c threshold \<or> cell_lt c (- threshold)) =
     (case c of Num x \<Rightarrow> threshold < x \<or> x < - threshold
             | PInf \<Rightarrow> True | NInf \<Rightarrow> True | NaN \<Rightarrow> False)"
    by (cases c) simp_all
qed

lemma unusual_pointwise:
  "length (unusual threshold rs) = length rs
   \<and> (\<forall>i<length rs. unusual threshold rs ! i =
         (case rs ! i of Num x \<Rightarrow> threshold < x \<or> x < - threshold
          | PInf \<Rightarrow> True | NInf \<Rightarrow> True | NaN \<Rightarrow> False))"
  by (simp add: unusual_as_map)

lemma unusual_body_present:
  assumes "returns_ready f" and "map_of (columns f) ''Daily Return'' = Some (FloatCol rs)"
  shows "\<exists>tbl. rows_of f (unusual threshold rs) [''Date'', ''Close'', ''Daily Return''] = Inr tbl
     \<and> getitem tbl ''Daily Return'' =
         Inr (FloatCol (filter (\<lambda>c. case c of Num x \<Rightarrow> threshold < x \<or> x < - threshold
                                  | PInf \<Rightarrow> True | NInf \<Rightarrow> True | NaN \<Rightarrow> False) rs))
     \<and> analyze_unusual_returns_body threshold ticker f =
         (Return (), f, [Text (''Unusual Returns for '' @ ticker @ '':''), Table tbl])"
proof -
  from assms(1) obtain d where d: "getitem f ''Date'' = Inr d"
    using not_isl_getitem by (auto simp: returns_ready_def)
  from assms(1) obtain close where c: "getitem f ''Close'' = Inr (FloatCol close)"
    using not_isl_float_column by (fastforce simp: returns_ready_def)
  have r: "getitem f ''Daily Return'' = Inr (FloatCol rs)"
    using assms(2) by (simp add: getitem_def)
  have fr: "float_column f ''Daily Return'' = Inr rs" using r by (simp add: float_column_def)
  note t = rows_of_three[OF d c r, of "unusual threshold rs"]
  have sel: "select (unusual threshold rs) rs =
      filter (\<lambda>c. case c of Num x \<Rightarrow> threshold < x \<or> x < - threshold
                 | PInf \<Rightarrow> True | NInf \<Rightarrow> True | NaN \<Rightarrow> False) rs"
    unfolding unusual_as_map by (rule select_map_filter)
  have g: "getitem \<lparr>index = select_index (unusual threshold rs) (index f),
          columns = [(''Date'', select_column (unusual threshold rs) d),
                     (''Close'', select_column (unusual threshold rs) (FloatCol close)),
                     (''Daily Return'', select_column (unusual threshold rs) (FloatCol rs))]\<rparr>
          ''Daily Return'' =
         Inr (FloatCol (filter (\<lambda>c. case c of Num x \<Rightarrow> threshold < x \<or> x < - threshold
                                  | PInf \<Rightarrow> True | NInf \<Rightarrow> True | NaN \<Rightarrow> False) rs))"
    by (simp add: getitem_def select_column_def sel)
  show ?thesis
    using assms(2) fr t g by (simp add: analyze_unusual_returns_body_def)
qed


lemma map_of_replace:
  "map_of (map (\<lambda>(n, c'). if n = m then (n, c) else (n, c')) xs) k =
     (if k = m then map_option (\<lambda>x. c) (map_of xs m) else map_of xs k)"
  by (induction xs) auto


lemma map_of_setitem:
  "map_of (columns (setitem f m c)) k = (if k = m then Some c else map_of (columns f) k)"
  by (auto simp: setitem_def map_of_replace map_add_def split: option.splits)


lemma getitem_setitem:
  "getitem (setitem f m c) k = (if k = m then Inr c else getitem f k)"
  by (simp add: getitem_def map_of_setitem)


lemma unusual_body_absent:
  assumes "returns_ready f" and "map_of (columns f) ''Daily Return'' = None"
  shows "\<exists>close tbl. float_column f ''Close'' = Inr close
     \<and> analyze_unusual_returns_body threshold ticker f =
         (Return (), setitem f ''Daily Return'' (FloatCol (times100 (pct_change close))),
          [Text (''Unusual Returns for '' @ ticker @ '':''), Table tbl])"
proof -
  from assms(1) obtain d where d: "getitem f ''Date'' = Inr d"
    using not_isl_getitem by (auto simp: returns_ready_def)
  from assms(1) obtain close where fc: "float_column f ''Close'' = Inr close"
    and c: "getitem f ''Close'' = Inr (FloatCol close)"
    using not_isl_float_column by (fastforce simp: returns_ready_def)
  define f' where "f' = setitem f ''Daily Return'' (FloatCol (times100 (pct_change close)))"
  have d': "getitem f' ''Date'' = Inr d" and c': "getitem f' ''Close'' = Inr (FloatCol close)"
    and r': "getitem f' ''Daily Return'' = Inr (FloatCol (times100 (pct_change close)))"
    using d c by (simp_all add: f'_def getitem_setitem)
  have fr: "float_column f' ''Daily Return'' = Inr (times100 (pct_change close))"
    using r' by (simp add: float_column_def)
  note t = rows_of_three[OF d' c' r', of "unusual threshold (times100 (pct_change close))"]
  show ?thesis
    using assms(2) fc fr t by (simp add: analyze_unusual_returns_body_def f'_def)
qed


text \<open>
  Claim C9. When \<^verbatim>\<open>analyze_unusual_returns\<close> runs on tables it can process, a ticker's
  table that already has a Daily Return column is left exactly as it was, and the rows
  printed for that ticker are exactly those whose stored value is above the threshold
  or below its negation (an infinity counts, NaN does not), whatever scale the stored
  values have: the printed Daily Return column is the stored one filtered by that
  comparison. When the column is absent the table gains it as
  \<^verbatim>\<open>Close.pct_change() * 100\<close>.
\<close>

theorem analyze_unusual_returns_existing_column:
  assumes "distinct (map snd (data_frames w))"
    and "list_all (\<lambda>(t, r). returns_ready (heap w r)) (data_frames w)"
    and "(ticker, r) \<in> set (data_frames w)"
  shows "\<exists>w'. analyze_unusual_returns threshold w = (Return (), w')
     \<and> (\<forall>rs. map_of (columns (heap w r)) ''Daily Return'' = Some (FloatCol rs) \<longrightarrow>
           heap w' r = heap w r
           \<and> (\<exists>tbl pre post.
                 rows_of (heap w r) (unusual threshold rs) [''Date'', ''Close'', ''Daily Return'']
                   = Inr tbl
                 \<and> length (unusual threshold rs) = length rs
                 \<and> (\<forall>i<length rs. unusual threshold rs ! i =
                       (case rs ! i of Num x \<Rightarrow> threshold < x \<or> x < - threshold
                        | PInf \<Rightarrow> True | NInf \<Rightarrow> True | NaN \<Rightarrow> False))
                 \<and> getitem tbl ''Daily Return'' =
                     Inr (FloatCol (filter (\<lambda>c. case c of Num x \<Rightarrow> threshold < x \<or> x < - threshold
                                        | PInf \<Rightarrow> True | NInf \<Rightarrow> True | NaN \<Rightarrow> False) rs))
                 \<and> printed w' =
                     pre @ [Text (''Unusual Returns for '' @ ticker @ '':''), Table tbl] @ post))
     \<and> (map_of (columns (heap w r)) ''Daily Return'' = None \<longrightarrow>
           (\<exists>close. float_column (heap w r) ''Close'' = Inr close
              \<and> heap w' r = setitem (heap w r) ''Daily Return''
                    (FloatCol (times100 (pct_change close)))))"
proof -
  let ?g = "analyze_unusual_returns_body threshold"
  have ok: "\<forall>(t, r)\<in>set (data_frames w). fst (?g t (heap w r)) = Return ()"
  proof (clarify)
    fix t q assume "(t, q) \<in> set (data_frames w)"
    then have rd: "returns_ready (heap w q)" using assms(2) by (auto simp: list_all_iff)
    show "fst (?g t (heap w q)) = Return ()"
    proof (cases "map_of (columns (heap w q)) ''Daily Return''")
      case None
      from unusual_body_absent[OF rd None, of threshold t] obtain close tbl where
        "?g t (heap w q) =
           (Return (), setitem (heap w q) ''Daily Return'' (FloatCol (times100 (pct_change close))),
            [Text (''Unusual Returns for '' @ t @ '':''), Table tbl])"
        by blast
      then show ?thesis by simp
    next
      case (Some c)
      with rd obtain rs where "c = FloatCol rs"
        using not_isl_float_column[of "heap w q" "''Daily Return''"]
        by (auto simp: returns_ready_def)
      with Some have m: "map_of (columns (heap w q)) ''Daily Return'' = Some (FloatCol rs)"
        by simp
      from unusual_body_present[OF rd m, of threshold t] obtain tbl where
        "?g t (heap w q) =
           (Return (), heap w q, [Text (''Unusual Returns for '' @ t @ '':''), Table tbl])"
        by blast
      then show ?thesis by simp
    qed
  qed
  from for_items_in_place[of "data_frames w" ?g w, OF assms(1) ok] obtain w' where
    run: "for_items (\<lambda>t r. in_place (?g t) r) (data_frames w) w = (Return (), w')"
    and each: "\<forall>(t, r)\<in>set (data_frames w). heap w' r = fst (snd (?g t (heap w r)))"
    and pr: "printed w' = printed w @ concat (map (\<lambda>(t, r). snd (snd (?g t (heap w r)))) (data_frames w))"
    by blast
  have rd: "returns_ready (heap w r)" using assms(2,3) by (auto simp: list_all_iff)
  have h: "heap w' r = fst (snd (?g ticker (heap w r)))" using each assms(3) by auto
  from assms(3) obtain xs ys where split: "data_frames w = xs @ (ticker, r) # ys"
    by (meson split_list)
  have pr': "printed w' = (printed w @ concat (map (\<lambda>(t, r). snd (snd (?g t (heap w r)))) xs))
      @ snd (snd (?g ticker (heap w r)))
      @ concat (map (\<lambda>(t, r). snd (snd (?g t (heap w r)))) ys)"
    using pr by (simp add: split)
  have A: "\<forall>rs. map_of (columns (heap w r)) ''Daily Return'' = Some (FloatCol rs) \<longrightarrow>
           heap w' r = heap w r
           \<and> (\<exists>tbl pre post.
                 rows_of (heap w r) (unusual threshold rs) [''Date'', ''Close'', ''Daily Return'']
                   = Inr tbl
                 \<and> length (unusual threshold rs) = length rs
                 \<and> (\<forall>i<length rs. unusual threshold rs ! i =
                       (case rs ! i of Num x \<Rightarrow> threshold < x \<or> x < - threshold
                        | PInf \<Rightarrow> True | NInf \<Rightarrow> True | NaN \<Rightarrow> False))
                 \<and> getitem tbl ''Daily Return'' =
                     Inr (FloatCol (filter (\<lambda>c. case c of Num x \<Rightarrow> threshold < x \<or> x < - threshold
                                        | PInf \<Rightarrow> True | NInf \<Rightarrow> True | NaN \<Rightarrow> False) rs))
                 \<and> printed w' =
                     pre @ [Text (''Unusual Returns for '' @ ticker @ '':''), Table tbl] @ post)"
  proof (intro allI impI)
    fix rs assume m: "map_of (columns (heap w r)) ''Daily Return'' = Some (FloatCol rs)"
    from unusual_body_present[OF rd m, of threshold ticker] obtain tbl where
      t: "rows_of (heap w r) (unusual threshold rs) [''Date'', ''Close'', ''Daily Return''] = Inr tbl"
      and gt: "getitem tbl ''Daily Return'' =
                     Inr (FloatCol (filter (\<lambda>c. case c of Num x \<Rightarrow> threshold < x \<or> x < - threshold
                                        | PInf \<Rightarrow> True | NInf \<Rightarrow> True | NaN \<Rightarrow> False) rs))"
      and b: "?g ticker (heap w r) =
         (Return (), heap w r, [Text (''Unusual Returns for '' @ ticker @ '':''), Table tbl])"
      by blast
    have same: "heap w' r = heap w r" using h b by simp
    have pp: "printed w' = (printed w @ concat (map (\<lambda>(t, r). snd (snd (?g t (heap w r)))) xs))
      @ [Text (''Unusual Returns for '' @ ticker @ '':''), Table tbl]
      @ concat (map (\<lambda>(t, r). snd (snd (?g t (heap w r)))) ys)"
      using pr' b by simp
    note pw = unusual_pointwise[of threshold rs]
    show "heap w' r = heap w r
           \<and> (\<exists>tbl pre post.
                 rows_of (heap w r) (unusual threshold rs) [''Date'', ''Close'', ''Daily Return'']
                   = Inr tbl
                 \<and> length (unusual threshold rs) = length rs
                 \<and> (\<forall>i<length rs. unusual threshold rs ! i =
                       (case rs ! i of Num x \<Rightarrow> threshold < x \<or> x < - threshold
                        | PInf \<Rightarrow> True | NInf \<Rightarrow> True | NaN \<Rightarrow> False))
                 \<and> getitem tbl ''Daily Return'' =
                     Inr (FloatCol (filter (\<lambda>c. case c of Num x \<Rightarrow> threshold < x \<or> x < - threshold
                                        | PInf \<Rightarrow> True | NInf \<Rightarrow> True | NaN \<Rightarrow> False) rs))
                 \<and> printed w' =
                     pre @ [Text (''Unusual Returns for '' @ ticker @ '':''), Table tbl] @ post)"
      apply (rule conjI[OF same])
      apply (rule exI[of _ tbl])
      apply (rule exI[of _ "printed w @ concat (map (\<lambda>(t, r). snd (snd (?g t (heap w r)))) xs)"])
      apply (rule exI[of _ "concat (map (\<lambda>(t, r). snd (snd (?g t (heap w r)))) ys)"])
      apply (intro conjI)
          apply (rule t)
         apply (rule conjunct1[OF pw])
        apply (rule conjunct2[OF pw])
       apply (rule gt)
      apply (rule pp)
      done
  qed
  have B: "map_of (columns (heap w r)) ''Daily Return'' = None \<longrightarrow>
           (\<exists>close. float_column (heap w r) ''Close'' = Inr close
              \<and> heap w' r = setitem (heap w r) ''Daily Return''
                    (FloatCol (times100 (pct_change close))))"
  proof
    assume m: "map_of (columns (heap w r)) ''Daily Return'' = None"
    from unusual_body_absent[OF rd m, of threshold ticker] obtain close tbl where
      "float_column (heap w r) ''Close'' = Inr close"
      "?g ticker (heap w r) =
         (Return (), setitem (heap w r) ''Daily Return'' (FloatCol (times100 (pct_change close))),
          [Text (''Unusual Returns for '' @ ticker @ '':''), Table tbl])"
      by blast
    then show "\<exists>close. float_column (heap w r) ''Close'' = Inr close
              \<and> heap w' r = setitem (heap w r) ''Daily Return''
                    (FloatCol (times100 (pct_change close)))"
      using h by simp
  qed
  have run': "analyze_unusual_returns threshold w = (Return (), w')"
    using run by (simp add: analyze_unusual_returns_def)
  show ?thesis
    apply (rule exI[of _ w'])
    apply (intro conjI)
      apply (rule run')
     apply (rule A)
    apply (rule B)
    done
qed



text \<open>Both cases at Close = [100, 110, 99] and threshold 2. With the values
  [NaN, 0.1, -3] already stored the table is unchanged and the one row printed is row 2,
  whose stored value -3 is below -2; the stored 0.1 of row 1 is compared as it stands
  and is not printed. Without the column it is computed as [NaN, 10, -10].\<close>

theorem analyze_unusual_returns_existing_column_witness:
  "(\<exists>w' tbl pre post.
      analyze_unusual_returns 2
        (returns_world [Num 100, Num 110, Num 99] [NaN, Num (1 / 10), Num (- 3)])
        = (Return (), w')
      \<and> heap w' 0 =
          heap (returns_world [Num 100, Num 110, Num 99] [NaN, Num (1 / 10), Num (- 3)]) 0
      \<and> unusual 2 [NaN, Num (1 / 10), Num (- 3)] = [False, False, True]
      \<and> index tbl = IntIndex [2]
      \<and> getitem tbl ''Daily Return'' = Inr (FloatCol [Num (- 3)])
      \<and> printed w' = pre @ [Text ''Unusual Returns for TSLA:'', Table tbl] @ post)
   \<and> (\<exists>w'. analyze_unusual_returns 2 (sample_world [Num 100, Num 110, Num 99]) = (Return (), w')
      \<and> map_of (columns (heap w' 0)) ''Daily Return'' = Some (FloatCol [NaN, Num 10, Num (- 10)]))"
proof -
  let ?rs = "[NaN, Num (1 / 10), Num (- 3)]"
  let ?w1 = "returns_world [Num 100, Num 110, Num 99] ?rs"
  let ?w2 = "sample_world [Num 100, Num 110, Num 99]"
  have r1: "list_all (\<lambda>(t, r). returns_ready (heap ?w1 r)) (data_frames ?w1)"
    by (simp add: returns_world_def returns_ready_def sample_frame_def setitem_def getitem_def
        float_column_def)
  have r2: "list_all (\<lambda>(t, r). returns_ready (heap ?w2 r)) (data_frames ?w2)"
    by (simp add: sample_world_def returns_ready_def sample_frame_def getitem_def float_column_def)
  have d1: "distinct (map snd (data_frames ?w1))" and i1: "(''TSLA'', 0) \<in> set (data_frames ?w1)"
    by (simp_all add: returns_world_def)
  have d2: "distinct (map snd (data_frames ?w2))" and i2: "(''TSLA'', 0) \<in> set (data_frames ?w2)"
    by (simp_all add: sample_world_def)
  have m1: "map_of (columns (heap ?w1 0)) ''Daily Return'' = Some (FloatCol ?rs)"
    by (simp add: returns_world_def sample_frame_def setitem_def)
  have m2: "map_of (columns (heap ?w2 0)) ''Daily Return'' = None"
    by (simp add: sample_world_def sample_frame_def)
  from analyze_unusual_returns_existing_column[OF d1 r1 i1, of 2] obtain w1' where
    a1: "analyze_unusual_returns 2 ?w1 = (Return (), w1')"
    and all1: "\<forall>rs. map_of (columns (heap ?w1 0)) ''Daily Return'' = Some (FloatCol rs) \<longrightarrow>
           heap w1' 0 = heap ?w1 0
           \<and> (\<exists>tbl pre post.
                 rows_of (heap ?w1 0) (unusual 2 rs) [''Date'', ''Close'', ''Daily Return'']
                   = Inr tbl
                 \<and> length (unusual 2 rs) = length rs
                 \<and> (\<forall>i<length rs. unusual 2 rs ! i =
                       (case rs ! i of Num x \<Rightarrow> 2 < x \<or> x < - 2
                        | PInf \<Rightarrow> True | NInf \<Rightarrow> True | NaN \<Rightarrow> False))
                 \<and> getitem tbl ''Daily Return'' =
                     Inr (FloatCol (filter (\<lambda>c. case c of Num x \<Rightarrow> 2 < x \<or> x < - 2
                                        | PInf \<Rightarrow> True | NInf \<Rightarrow> True | NaN \<Rightarrow> False) rs))
                 \<and> printed w1' =
                     pre @ [Text (''Unusual Returns for '' @ ''TSLA'' @ '':''), Table tbl] @ post)"
    by blast
  from all1 m1 obtain tbl pre post where
    a2: "heap w1' 0 = heap ?w1 0"
    and a3: "rows_of (heap ?w1 0) (unusual 2 ?rs) [''Date'', ''Close'', ''Daily Return''] = Inr tbl"
    and a5: "getitem tbl ''Daily Return'' =
                     Inr (FloatCol (filter (\<lambda>c. case c of Num x \<Rightarrow> 2 < x \<or> x < - 2
                                        | PInf \<Rightarrow> True | NInf \<Rightarrow> True | NaN \<Rightarrow> False) ?rs))"
    and a4: "printed w1' = pre @ [Text (''Unusual Returns for '' @ ''TSLA'' @ '':''), Table tbl] @ post"
    by blast
  have u: "unusual 2 ?rs = [False, False, True]" by (simp add: unusual_def)
  have a3': "index tbl = IntIndex [2]"
    using a3 by (auto simp: u rows_of_def returns_world_def sample_frame_def setitem_def
        select_rows_def select_index_def select_def getitem_def split: sum.splits)
  have a5': "getitem tbl ''Daily Return'' = Inr (FloatCol [Num (- 3)])" using a5 by simp
  have a4': "printed w1' = pre @ [Text ''Unusual Returns for TSLA:'', Table tbl] @ post"
    using a4 by simp
  from analyze_unusual_returns_existing_column[OF d2 r2 i2, of 2] m2
  obtain w2' close where
    b1: "analyze_unusual_returns 2 ?w2 = (Return (), w2')"
    and b2: "float_column (heap ?w2 0) ''Close'' = Inr close"
    and b3: "heap w2' 0 = setitem (heap ?w2 0) ''Daily Return''
                    (FloatCol (times100 (pct_change close)))"
    by blast
  have "close = [Num 100, Num 110, Num 99]"
    using b2 by (simp add: sample_world_def sample_frame_def float_column_def getitem_def)
  then have b4: "map_of (columns (heap w2' 0)) ''Daily Return''
      = Some (FloatCol [NaN, Num 10, Num (- 10)])"
    by (simp add: b3 map_of_setitem times100_def pct_change_def ffill_def shift_def)
  have first: "\<exists>w' tbl pre post.
      analyze_unusual_returns 2 ?w1 = (Return (), w')
      \<and> heap w' 0 = heap ?w1 0
      \<and> unusual 2 ?rs = [False, False, True]
      \<and> index tbl = IntIndex [2]
      \<and> getitem tbl ''Daily Return'' = Inr (FloatCol [Num (- 3)])
      \<and> printed w' = pre @ [Text ''Unusual Returns for TSLA:'', Table tbl] @ post"
    using a1 a2 u a3' a5' a4' by blast
  have second: "\<exists>w'. analyze_unusual_returns 2 ?w2 = (Return (), w')
      \<and> map_of (columns (heap w' 0)) ''Daily Return'' = Some (FloatCol [NaN, Num 10, Num (- 10)])"
    using b1 b4 by blast
  from first second show ?thesis by (rule conjI)
qed

section \<open>Properties of the rolling statistics\<close>


lemma window_at_Some: "window_at w xs i = Some vs \<Longrightarrow> 0 < w \<and> w \<le> i + 1"
  by (auto simp: window_at_def split: if_splits)


lemma rolling_mean_nth:
  "i < length xs \<Longrightarrow> rolling_mean w xs ! i =
     (case window_at w xs i of None \<Rightarrow> NaN | Some vs \<Rightarrow> Num (mean vs))"
  by (simp add: rolling_mean_def)


lemma rolling_std_nth:
  "i < length xs \<Longrightarrow> rolling_std w xs ! i =
     (case window_at w xs i of None \<Rightarrow> NaN
      | Some vs \<Rightarrow> (if length vs < 2 then NaN else Num (std 1 vs)))"
  by (simp add: rolling_std_def)


lemma rolling_defined_window:
  assumes "i < length xs" and "rolling_mean w xs ! i \<noteq> NaN \<or> rolling_std w xs ! i \<noteq> NaN"
  shows "0 < w \<and> w \<le> i + 1"
proof (cases "window_at w xs i")
  case None
  with assms show ?thesis by (simp add: rolling_mean_nth rolling_std_nth)
next
  case (Some vs)
  then show ?thesis by (rule window_at_Some)
qed


lemma rolling_before_full:
  assumes "i < length xs" and "i + 1 < w"
  shows "rolling_mean w xs ! i = NaN \<and> rolling_std w xs ! i = NaN"
  using assms by (simp add: rolling_mean_nth rolling_std_nth window_at_def)


lemma analyze_volatility_body_ok:
  assumes "close_ready f" and "0 \<le> window" and "float_column f ''Close'' = Inr close"
  shows "analyze_volatility_body window f =
     (Return (),
      setitem (setitem f ''Rolling Mean'' (FloatCol (rolling_mean (nat window) close)))
        ''Rolling Std'' (FloatCol (rolling_std (nat window) close)), [])"
proof -
  from assms(1) obtain d where d: "getitem f ''Date'' = Inr d"
    using not_isl_getitem by (auto simp: close_ready_def)
  show ?thesis
    using assms(2,3) d
    by (simp add: analyze_volatility_body_def rolling_def getitem_setitem Let_def)
qed


text \<open>
  Claim C6, as the code has it. After \<^verbatim>\<open>analyze_volatility(data_frames, window)\<close> the
  Rolling Mean and Rolling Std columns of a ticker are the trailing statistics of its
  Close column. Row \<open>i\<close> (counted from 0) holds a value only when the window is
  positive and rows \<open>0..i\<close> are at least \<open>window\<close> many, that is, when at least
  \<open>window - 1\<close> rows precede it; every row before that holds NaN in both columns.
\<close>


theorem analyze_volatility_window:
  assumes "distinct (map snd (data_frames w))"
    and "list_all (\<lambda>(t, r). close_ready (heap w r)) (data_frames w)"
    and "0 \<le> window"
    and "(ticker, r) \<in> set (data_frames w)"
    and "float_column (heap w r) ''Close'' = Inr close"
  shows "\<exists>w' rm rs. analyze_volatility window w = (Return (), w')
     \<and> float_column (heap w' r) ''Rolling Mean'' = Inr rm
     \<and> float_column (heap w' r) ''Rolling Std'' = Inr rs
     \<and> rm = rolling_mean (nat window) close \<and> rs = rolling_std (nat window) close
     \<and> length rm = length close \<and> length rs = length close
     \<and> (\<forall>i<length close.
           (rm ! i \<noteq> NaN \<or> rs ! i \<noteq> NaN \<longrightarrow> 0 < window \<and> window \<le> int i + 1)
         \<and> (int i + 1 < window \<longrightarrow> rm ! i = NaN \<and> rs ! i = NaN))"
proof -
  let ?g = "\<lambda>t::string. analyze_volatility_body window"
  have ok: "\<forall>(t, r)\<in>set (data_frames w). fst (?g t (heap w r)) = Return ()"
  proof (clarify)
    fix t q assume "(t, q) \<in> set (data_frames w)"
    then have rd: "close_ready (heap w q)" using assms(2) by (auto simp: list_all_iff)
    then obtain c where "float_column (heap w q) ''Close'' = Inr c"
      using not_isl_float_column by (fastforce simp: close_ready_def)
    from analyze_volatility_body_ok[OF rd assms(3) this]
    show "fst (analyze_volatility_body window (heap w q)) = Return ()" by simp
  qed
  from for_items_in_place[of "data_frames w" ?g w, OF assms(1) ok] obtain w' where
    run: "for_items (\<lambda>t r. in_place (?g t) r) (data_frames w) w = (Return (), w')"
    and each: "\<forall>(t, r)\<in>set (data_frames w). heap w' r = fst (snd (?g t (heap w r)))"
    by blast
  have rd: "close_ready (heap w r)" using assms(2,4) by (auto simp: list_all_iff)
  have h: "heap w' r =
      setitem (setitem (heap w r) ''Rolling Mean'' (FloatCol (rolling_mean (nat window) close)))
        ''Rolling Std'' (FloatCol (rolling_std (nat window) close))"
    using each assms(4) analyze_volatility_body_ok[OF rd assms(3) assms(5)] by auto
  have rm: "float_column (heap w' r) ''Rolling Mean'' = Inr (rolling_mean (nat window) close)"
    and rs: "float_column (heap w' r) ''Rolling Std'' = Inr (rolling_std (nat window) close)"
    by (simp_all add: h float_column_def getitem_setitem)
  have len: "length (rolling_mean (nat window) close) = length close"
      "length (rolling_std (nat window) close) = length close"
    by (simp_all add: rolling_mean_def rolling_std_def)
  have rows: "\<forall>i<length close.
           (rolling_mean (nat window) close ! i \<noteq> NaN \<or> rolling_std (nat window) close ! i \<noteq> NaN
              \<longrightarrow> 0 < window \<and> window \<le> int i + 1)
         \<and> (int i + 1 < window \<longrightarrow>
              rolling_mean (nat window) close ! i = NaN \<and> rolling_std (nat window) close ! i = NaN)"
  proof (intro allI impI conjI)
    fix i assume i: "i < length close"
    { assume "rolling_mean (nat window) close ! i \<noteq> NaN \<or> rolling_std (nat window) close ! i \<noteq> NaN"
      from rolling_defined_window[OF i this] show "0 < window" "window \<le> int i + 1" by auto }
    { assume "int i + 1 < window"
      then have "i + 1 < nat window" by auto
      from rolling_before_full[OF i this]
      show "rolling_mean (nat window) close ! i = NaN" "rolling_std (nat window) close ! i = NaN"
        by auto }
  qed
  from run rm rs len rows show ?thesis by (simp add: analyze_volatility_def)
qed



text \<open>The theorem at window 2 on Close = [1, 3, 5].\<close>


theorem analyze_volatility_window_witness:
  "\<exists>w' rm rs. analyze_volatility 2 (sample_world [Num 1, Num 3, Num 5]) = (Return (), w')
     \<and> float_column (heap w' 0) ''Rolling Mean'' = Inr rm
     \<and> float_column (heap w' 0) ''Rolling Std'' = Inr rs
     \<and> rm = [NaN, Num 2, Num 4] \<and> rs ! 0 = NaN"
proof -
  let ?w = "sample_world [Num 1, Num 3, Num 5]"
  have rd: "list_all (\<lambda>(t, r). close_ready (heap ?w r)) (data_frames ?w)"
    by (simp add: sample_world_def close_ready_def sample_frame_def getitem_def float_column_def)
  have fc: "float_column (heap ?w 0) ''Close'' = Inr [Num 1, Num 3, Num 5]"
    by (simp add: sample_world_def sample_frame_def getitem_def float_column_def)
  have d: "distinct (map snd (data_frames ?w))" and m: "(''TSLA'', 0) \<in> set (data_frames ?w)"
    by (simp_all add: sample_world_def)
  from analyze_volatility_window[OF d rd _ m fc, of 2] obtain w' rm rs where
    a: "analyze_volatility 2 ?w = (Return (), w')"
    and b: "float_column (heap w' 0) ''Rolling Mean'' = Inr rm"
    and c: "float_column (heap w' 0) ''Rolling Std'' = Inr rs"
    and e: "rm = rolling_mean (nat 2) [Num 1, Num 3, Num 5]"
    and f: "\<forall>i<length [Num 1, Num 3, Num 5::cell].
           (rm ! i \<noteq> NaN \<or> rs ! i \<noteq> NaN \<longrightarrow> 0 < (2::int) \<and> 2 \<le> int i + 1)
         \<and> (int i + 1 < 2 \<longrightarrow> rm ! i = NaN \<and> rs ! i = NaN)"
    by auto
  have e': "rm = [NaN, Num 2, Num 4]"
    by (simp add: e rolling_mean_def window_at_def mean_def upt_rec[of 0] upt_rec[of "Suc 0"] upt_rec[of 1]
        upt_rec[of 2] upt_rec[of "Suc (Suc 0)"] drop_Suc)
  have f': "rs ! 0 = NaN" using f by auto
  from a b c e' f' show ?thesis by blast
qed


text \<open>Claim C6 as stated asks for \<open>window\<close> prior rows. With window 2 on
  Close = [1, 3], row 1 has a single prior row and both statistics are defined there.\<close>


theorem rolling_defined_with_fewer_prior_rows_counterexample:
  "map_of (columns (heap (snd (analyze_volatility 2 (sample_world [Num 1, Num 3]))) 0))
      ''Rolling Mean'' = Some (FloatCol [NaN, Num 2])
   \<and> map_of (columns (heap (snd (analyze_volatility 2 (sample_world [Num 1, Num 3]))) 0))
      ''Rolling Std'' = Some (FloatCol [NaN, Num (sqrt 2)])
   \<and> [NaN, Num 2] ! 1 \<noteq> NaN \<and> \<not> (2::nat) \<le> 1"
  by (simp add: analyze_volatility_def analyze_volatility_body_def rolling_def rolling_mean_def
      rolling_std_def window_at_def mean_def std_def frame_eval upt_rec[of 0] upt_rec[of "Suc 0"] upt_rec[of 1]
        upt_rec[of 2] upt_rec[of "Suc (Suc 0)"])

section \<open>Properties of outlier detection\<close>


lemma those_map_Some: "those (map Some vs) = Some vs"
  by (induction vs) auto




































section \<open>Properties of normalization\<close>



















































































section \<open>Properties of separation\<close>


lemma hist_get_present:
  assumes "wf_history h" and "map_of (h_columns h) (f, t) \<noteq> None"
  shows "\<exists>xs. hist_get h f t = Inr xs \<and> map_of (h_columns h) (f, t) = Some xs
           \<and> length xs = length (h_index h)"
proof -
  from assms(2) obtain xs where m: "map_of (h_columns h) (f, t) = Some xs" by auto
  then have "((f, t), xs) \<in> set (h_columns h)" by (rule map_of_SomeD)
  with assms(1) have "length xs = length (h_index h)"
    by (auto simp: wf_history_def list_all_iff)
  with m show ?thesis by (simp add: hist_get_def)
qed


lemma separate_one_ok:
  assumes "wf_history h" and "list_all (\<lambda>f. map_of (h_columns h) (f, t) \<noteq> None) numeric_columns"
  shows "separate_one h t = Inr (ticker_table h t)"
proof -
  from assms(2) have p: "map_of (h_columns h) (''Close'', t) \<noteq> None"
    "map_of (h_columns h) (''Open'', t) \<noteq> None" "map_of (h_columns h) (''High'', t) \<noteq> None"
    "map_of (h_columns h) (''Low'', t) \<noteq> None" "map_of (h_columns h) (''Volume'', t) \<noteq> None"
    by (simp_all add: numeric_columns_def)
  from hist_get_present[OF assms(1) p(1)] obtain c where
    c: "hist_get h ''Close'' t = Inr c" "map_of (h_columns h) (''Close'', t) = Some c"
       "length c = length (h_index h)" by blast
  from hist_get_present[OF assms(1) p(2)] obtain o' where
    o: "hist_get h ''Open'' t = Inr o'" "map_of (h_columns h) (''Open'', t) = Some o'"
       "length o' = length (h_index h)" by blast
  from hist_get_present[OF assms(1) p(3)] obtain hi where
    hi: "hist_get h ''High'' t = Inr hi" "map_of (h_columns h) (''High'', t) = Some hi"
       "length hi = length (h_index h)" by blast
  from hist_get_present[OF assms(1) p(4)] obtain lo where
    lo: "hist_get h ''Low'' t = Inr lo" "map_of (h_columns h) (''Low'', t) = Some lo"
       "length lo = length (h_index h)" by blast
  from hist_get_present[OF assms(1) p(5)] obtain v where
    v: "hist_get h ''Volume'' t = Inr v" "map_of (h_columns h) (''Volume'', t) = Some v"
       "length v = length (h_index h)" by blast
  show ?thesis
    by (simp add: separate_one_def c o hi lo v assign_values_def nrows_def length_index_def
        setitem_def ticker_table_def)
qed



lemma set_dict_set: "snd ` set (dict_set d k v) \<subseteq> insert v (snd ` set d)"
proof (induction d)
  case Nil
  then show ?case by simp
next
  case (Cons p d)
  obtain k' v' where p: "p = (k', v')" by (cases p)
  show ?case
  proof (cases "k' = k")
    case True
    then show ?thesis by (auto simp: p)
  next
    case False
    then have "snd ` set (dict_set (p # d) k v) = insert v' (snd ` set (dict_set d k v))"
      by (simp add: p)
    with Cons show ?thesis by (auto simp: p)
  qed
qed


lemma distinct_dict_set:
  "distinct (map snd d) \<Longrightarrow> v \<notin> snd ` set d \<Longrightarrow> distinct (map snd (dict_set d k v))"
proof (induction d)
  case Nil
  then show ?case by simp
next
  case (Cons p d)
  obtain k' v' where p: "p = (k', v')" by (cases p)
  show ?case
  proof (cases "k' = k")
    case True
    with Cons.prems p show ?thesis by (auto simp: image_iff)
  next
    case False
    have "v' \<notin> snd ` set (dict_set d k v)"
      using set_dict_set[of d k v] Cons.prems p by (auto simp: image_iff)
    with False Cons p show ?thesis by (auto simp: image_iff)
  qed
qed


lemma separate_loop_ok:
  assumes "wf_history h" and "covers h tickers"
    and "distinct (map snd d)" and "\<forall>r\<in>snd ` set d. r < nxt w"
  shows "\<exists>d' w'. separate_loop h tickers d w = (Return d', w')
     \<and> nxt w \<le> nxt w'
     \<and> (\<forall>x<nxt w. heap w' x = heap w x)
     \<and> (\<forall>t\<in>set tickers. \<exists>r. map_of d' t = Some r \<and> nxt w \<le> r
            \<and> heap w' r = ticker_table h t)
     \<and> (\<forall>t. t \<notin> set tickers \<longrightarrow> map_of d' t = map_of d t)
     \<and> distinct (map snd d') \<and> (\<forall>r\<in>snd ` set d'. r < nxt w')
     \<and> printed w' = printed w"
  using assms
proof (induction tickers arbitrary: d w)
  case Nil
  then show ?case by simp
next
  case (Cons t ts)
  have one: "separate_one h t = Inr (ticker_table h t)"
    using Cons.prems(1,2) by (intro separate_one_ok) (simp_all add: covers_def)
  define w1 where "w1 = w\<lparr>heap := (heap w)(nxt w := ticker_table h t), nxt := Suc (nxt w)\<rparr>"
  define d1 where "d1 = dict_set d t (nxt w)"
  have cov: "covers h ts" using Cons.prems(2) by (simp add: covers_def)
  have fresh: "nxt w \<notin> snd ` set d" using Cons.prems(4) by auto
  have dd: "distinct (map snd d1)"
    unfolding d1_def by (rule distinct_dict_set[OF Cons.prems(3) fresh])
  have bd: "\<forall>r\<in>snd ` set d1. r < nxt w1"
  proof
    fix r assume "r \<in> snd ` set d1"
    then have "r \<in> insert (nxt w) (snd ` set d)"
      using set_dict_set[of d t "nxt w"] unfolding d1_def by (rule rev_subsetD)
    then have "r = nxt w \<or> r < nxt w" using Cons.prems(4) by blast
    then show "r < nxt w1" by (auto simp: w1_def)
  qed
  from Cons.IH[OF Cons.prems(1) cov dd bd] obtain d' w' where
    run: "separate_loop h ts d1 w1 = (Return d', w')"
    and mono: "nxt w1 \<le> nxt w'"
    and old: "\<forall>x<nxt w1. heap w' x = heap w1 x"
    and each: "\<forall>s\<in>set ts. \<exists>r. map_of d' s = Some r \<and> nxt w1 \<le> r
            \<and> heap w' r = ticker_table h s"
    and other: "\<forall>s. s \<notin> set ts \<longrightarrow> map_of d' s = map_of d1 s"
    and dist: "distinct (map snd d')" and bound: "\<forall>r\<in>snd ` set d'. r < nxt w'"
    and pr: "printed w' = printed w1"
    by blast
  have step: "separate_loop h (t # ts) d w = (Return d', w')"
    using run by (simp add: one alloc_def w1_def d1_def)
  have c1: "nxt w \<le> nxt w'" using mono by (simp add: w1_def)
  have c2: "\<forall>x<nxt w. heap w' x = heap w x" using old by (simp add: w1_def)
  have c3: "\<forall>s\<in>set (t # ts). \<exists>r. map_of d' s = Some r \<and> nxt w \<le> r
            \<and> heap w' r = ticker_table h s"
  proof
    fix s assume s: "s \<in> set (t # ts)"
    show "\<exists>r. map_of d' s = Some r \<and> nxt w \<le> r \<and> heap w' r = ticker_table h s"
    proof (cases "s \<in> set ts")
      case True
      with each obtain r where "map_of d' s = Some r" "nxt w1 \<le> r" "heap w' r = ticker_table h s"
        by blast
      then show ?thesis by (auto simp: w1_def)
    next
      case False
      with s have st: "s = t" by simp
      have "map_of d' t = Some (nxt w)"
        using other False st by (simp add: d1_def map_of_dict_set)
      moreover have "heap w' (nxt w) = ticker_table h t" using old by (simp add: w1_def)
      ultimately show ?thesis using st by auto
    qed
  qed
  have c4: "\<forall>s. s \<notin> set (t # ts) \<longrightarrow> map_of d' s = map_of d s"
    using other by (simp add: d1_def map_of_dict_set)
  have c5: "printed w' = printed w" using pr by (simp add: w1_def)
  from step c1 c2 c3 c4 dist bound c5 show ?case by blast
qed


text \<open>
  Claim C7. On an acquisition result that has the five fields of every requested
  ticker, \<^verbatim>\<open>separate_data\<close> returns normally, and the dict it returns maps each ticker
  of the list to a table of its own: a new object, different from the table of every
  other ticker. The table has the plain row index \<open>0..n-1\<close> for the \<open>n\<close> dates of the
  acquisition result, and exactly the columns Date, Close, Open, High, Low, Volume in
  this order, where Date is the date index of the acquisition result and each of the
  five fields is that ticker's series, position by position.
\<close>


theorem separate_data_tables:
  assumes "wf_history h" and "covers h tickers" and "ticker \<in> set tickers"
  shows "\<exists>w' r. separate_data h tickers w = (Return (), w')
     \<and> map_of (data_frames w') ticker = Some r
     \<and> index (heap w' r) = IntIndex [0..<length (h_index h)]
     \<and> map fst (columns (heap w' r)) = [''Date'', ''Close'', ''Open'', ''High'', ''Low'', ''Volume'']
     \<and> getitem (heap w' r) ''Date'' = Inr (DateCol (h_index h))
     \<and> (\<forall>f\<in>set numeric_columns. \<exists>xs. hist_get h f ticker = Inr xs
            \<and> getitem (heap w' r) f = Inr (FloatCol xs) \<and> length xs = length (h_index h))
     \<and> distinct (map snd (data_frames w'))
     \<and> nxt w \<le> r \<and> (\<forall>x<nxt w. heap w' x = heap w x)"
proof -
  have e1: "distinct (map snd ([] :: (string \<times> ref) list))" by simp
  have e2: "\<forall>r\<in>snd ` set ([] :: (string \<times> ref) list). r < nxt w" by simp
  from separate_loop_ok[OF assms(1,2) e1 e2] obtain d' w1 where
    run: "separate_loop h tickers [] w = (Return d', w1)"
    and each: "\<forall>t\<in>set tickers. \<exists>r. map_of d' t = Some r \<and> nxt w \<le> r
            \<and> heap w1 r = ticker_table h t"
    and old: "\<forall>x<nxt w. heap w1 x = heap w x"
    and dist: "distinct (map snd d')"
    by blast
  from each assms(3) obtain r where r: "map_of d' ticker = Some r" and fr: "nxt w \<le> r"
    and tb: "heap w1 r = ticker_table h ticker" by blast
  let ?w' = "w1\<lparr>data_frames := d'\<rparr>"
  have a: "separate_data h tickers w = (Return (), ?w')"
    using run by (simp add: separate_data_def)
  have tb': "heap ?w' r = ticker_table h ticker" using tb by simp
  have cols: "\<forall>f\<in>set numeric_columns. \<exists>xs. hist_get h f ticker = Inr xs
            \<and> getitem (ticker_table h ticker) f = Inr (FloatCol xs)
            \<and> length xs = length (h_index h)"
  proof
    fix f assume f: "f \<in> set numeric_columns"
    then have "map_of (h_columns h) (f, ticker) \<noteq> None"
      using assms(2,3) by (auto simp: covers_def list_all_iff)
    from hist_get_present[OF assms(1) this] obtain xs where
      x: "hist_get h f ticker = Inr xs" "map_of (h_columns h) (f, ticker) = Some xs"
         "length xs = length (h_index h)" by blast
    have "getitem (ticker_table h ticker) f
        = Inr (FloatCol (the (map_of (h_columns h) (f, ticker))))"
      using f by (auto simp: numeric_columns_def ticker_table_def getitem_def)
    then have "getitem (ticker_table h ticker) f = Inr (FloatCol xs)"
      by (simp add: x(2))
    with x show "\<exists>xs. hist_get h f ticker = Inr xs
            \<and> getitem (ticker_table h ticker) f = Inr (FloatCol xs)
            \<and> length xs = length (h_index h)" by blast
  qed
  have c1: "map_of (data_frames ?w') ticker = Some r" using r by simp
  have c2: "index (heap ?w' r) = IntIndex [0..<length (h_index h)]"
    by (simp add: tb ticker_table_def)
  have c3: "map fst (columns (heap ?w' r))
      = [''Date'', ''Close'', ''Open'', ''High'', ''Low'', ''Volume'']"
    by (simp add: tb ticker_table_def)
  have c4: "getitem (heap ?w' r) ''Date'' = Inr (DateCol (h_index h))"
    by (simp add: tb ticker_table_def getitem_def)
  have c5: "\<forall>f\<in>set numeric_columns. \<exists>xs. hist_get h f ticker = Inr xs
            \<and> getitem (heap ?w' r) f = Inr (FloatCol xs) \<and> length xs = length (h_index h)"
    using cols by (simp add: tb)
  have c6: "distinct (map snd (data_frames ?w'))" using dist by simp
  have c7: "\<forall>x<nxt w. heap ?w' x = heap w x" using old by simp
  show ?thesis
    apply (rule exI[of _ ?w'])
    apply (rule exI[of _ r])
    apply (intro conjI)
            apply (rule a)
           apply (rule c1)
          apply (rule c2)
         apply (rule c3)
        apply (rule c4)
       apply (rule c5)
      apply (rule c6)
     apply (rule fr)
    apply (rule c7)
    done
qed



text \<open>The theorem for the second of two tickers.\<close>


theorem separate_data_tables_witness:
  "\<exists>w' r. separate_data sample_history [''TSLA'', ''SPY''] empty_world = (Return (), w')
     \<and> map_of (data_frames w') ''SPY'' = Some r
     \<and> index (heap w' r) = IntIndex [0, 1]
     \<and> map fst (columns (heap w' r)) = [''Date'', ''Close'', ''Open'', ''High'', ''Low'', ''Volume'']
     \<and> getitem (heap w' r) ''Date'' = Inr (DateCol [Some 0, Some 1])
     \<and> getitem (heap w' r) ''Close'' = Inr (FloatCol [Num 20, NaN])
     \<and> getitem (heap w' r) ''Volume'' = Inr (FloatCol [Num 300, Num 400])
     \<and> distinct (map snd (data_frames w'))"
proof -
  have wf: "wf_history sample_history" by (simp add: wf_history_def sample_history_def)
  have cv: "covers sample_history [''TSLA'', ''SPY'']"
    by (simp add: covers_def numeric_columns_def sample_history_def)
  have m: "''SPY'' \<in> set [''TSLA'', ''SPY'']" by simp
  from separate_data_tables[OF wf cv m, of empty_world] obtain w' r where
    all: "separate_data sample_history [''TSLA'', ''SPY''] empty_world = (Return (), w')
     \<and> map_of (data_frames w') ''SPY'' = Some r
     \<and> index (heap w' r) = IntIndex [0..<length (h_index sample_history)]
     \<and> map fst (columns (heap w' r)) = [''Date'', ''Close'', ''Open'', ''High'', ''Low'', ''Volume'']
     \<and> getitem (heap w' r) ''Date'' = Inr (DateCol (h_index sample_history))
     \<and> (\<forall>f\<in>set numeric_columns. \<exists>xs. hist_get sample_history f ''SPY'' = Inr xs
            \<and> getitem (heap w' r) f = Inr (FloatCol xs)
            \<and> length xs = length (h_index sample_history))
     \<and> distinct (map snd (data_frames w'))
     \<and> nxt empty_world \<le> r \<and> (\<forall>x<nxt empty_world. heap w' x = heap empty_world x)"
    by (elim exE)
  note a = all[THEN conjunct1]
  note b = all[THEN conjunct2, THEN conjunct1]
  note c = all[THEN conjunct2, THEN conjunct2, THEN conjunct1]
  note d = all[THEN conjunct2, THEN conjunct2, THEN conjunct2, THEN conjunct1]
  note e = all[THEN conjunct2, THEN conjunct2, THEN conjunct2, THEN conjunct2, THEN conjunct1]
  note f = all[THEN conjunct2, THEN conjunct2, THEN conjunct2, THEN conjunct2, THEN conjunct2,
      THEN conjunct1]
  note g = all[THEN conjunct2, THEN conjunct2, THEN conjunct2, THEN conjunct2, THEN conjunct2,
      THEN conjunct2, THEN conjunct1]
  have c': "index (heap w' r) = IntIndex [0, 1]"
    using c by (simp add: sample_history_def upt_rec[of 0] upt_rec[of 1])
  have e': "getitem (heap w' r) ''Date'' = Inr (DateCol [Some 0, Some 1])"
    using e by (simp add: sample_history_def)
  have "''Close'' \<in> set numeric_columns" by (simp add: numeric_columns_def)
  with f obtain xs where "hist_get sample_history ''Close'' ''SPY'' = Inr xs"
    and "getitem (heap w' r) ''Close'' = Inr (FloatCol xs)" by blast
  then have f1: "getitem (heap w' r) ''Close'' = Inr (FloatCol [Num 20, NaN])"
    by (simp add: hist_get_def sample_history_def)
  have "''Volume'' \<in> set numeric_columns" by (simp add: numeric_columns_def)
  with f obtain ys where "hist_get sample_history ''Volume'' ''SPY'' = Inr ys"
    and "getitem (heap w' r) ''Volume'' = Inr (FloatCol ys)" by blast
  then have f2: "getitem (heap w' r) ''Volume'' = Inr (FloatCol [Num 300, Num 400])"
    by (simp add: hist_get_def sample_history_def)
  show ?thesis
    apply (rule exI[of _ w'])
    apply (rule exI[of _ r])
    apply (intro conjI)
           apply (rule a)
          apply (rule b)
         apply (rule c')
        apply (rule d)
       apply (rule e')
      apply (rule f1)
     apply (rule f2)
    apply (rule g)
    done
qed

section \<open>Properties of the inspection reports\<close>


lemma for_items_read_only:
  assumes "\<And>t f. fst (snd (g t f)) = f"
  shows "heap (snd (for_items (\<lambda>t r. in_place (g t) r) items w)) = heap w
     \<and> data_frames (snd (for_items (\<lambda>t r. in_place (g t) r) items w)) = data_frames w
     \<and> nxt (snd (for_items (\<lambda>t r. in_place (g t) r) items w)) = nxt w"
proof (induction items arbitrary: w)
  case Nil
  show ?case by simp
next
  case (Cons p items)
  obtain t r where p: "p = (t, r)" by (cases p)
  obtain res f' out where g: "g t (heap w r) = (res, f', out)" by (cases "g t (heap w r)")
  have f': "f' = heap w r" using assms[of t "heap w r"] g by simp
  define w1 where "w1 = w\<lparr>printed := printed w @ out\<rparr>"
  have step: "in_place (g t) r w = (res, w1)"
    by (simp add: in_place_def g f' w1_def)
  have same: "heap w1 = heap w" "data_frames w1 = data_frames w" "nxt w1 = nxt w"
    by (simp_all add: w1_def)
  show ?case
  proof (cases res)
    case (Raise e)
    then show ?thesis by (simp add: p step same)
  next
    case (Return u)
    then show ?thesis using Cons.IH[of w1] by (simp add: p step same)
  qed
qed


text \<open>
  Claim C8. Each of \<^verbatim>\<open>check_basic_statistics\<close>, \<^verbatim>\<open>ensure_data_types\<close> and
  \<^verbatim>\<open>check_missing_values\<close> leaves the store as it found it, whatever the input and
  whether it returns or raises: every object holds the table it held before, the dict
  maps the same tickers to the same objects, and no object is created. Only the printed
  output grows.
\<close>


theorem inspection_leaves_tables_unchanged:
  "heap (snd (check_basic_statistics describe w)) = heap w
   \<and> data_frames (snd (check_basic_statistics describe w)) = data_frames w
   \<and> nxt (snd (check_basic_statistics describe w)) = nxt w
   \<and> heap (snd (ensure_data_types w)) = heap w
   \<and> data_frames (snd (ensure_data_types w)) = data_frames w
   \<and> nxt (snd (ensure_data_types w)) = nxt w
   \<and> heap (snd (check_missing_values w)) = heap w
   \<and> data_frames (snd (check_missing_values w)) = data_frames w
   \<and> nxt (snd (check_missing_values w)) = nxt w"
proof -
  have a: "\<And>t f. fst (snd (check_basic_statistics_body describe t f)) = f"
    by (simp add: check_basic_statistics_body_def split: sum.splits)
  have b: "\<And>t f. fst (snd (ensure_data_types_body t f)) = f"
    by (simp add: ensure_data_types_body_def)
  have c: "\<And>t f. fst (snd (check_missing_values_body t f)) = f"
    by (simp add: check_missing_values_body_def)
  note A = for_items_read_only[of "check_basic_statistics_body describe" "data_frames w" w, OF a]
  note B = for_items_read_only[of ensure_data_types_body "data_frames w" w, OF b]
  note C = for_items_read_only[of check_missing_values_body "data_frames w" w, OF c]
  show ?thesis
    unfolding check_basic_statistics_def ensure_data_types_def check_missing_values_def
    using A B C by simp
qed



text \<open>What the missing-value report prints for a table with one gap in each price
  column.\<close>


lemma check_missing_values_sample:
  "printed (snd (check_missing_values (sample_world [Num 1, NaN, Num 3]))) =
     [Text ''Missing Values for TSLA:'',
      Counts [(''Date'', 0), (''Close'', 1), (''Open'', 1), (''High'', 1), (''Low'', 1),
              (''Volume'', 0)]]"
  by (simp add: check_missing_values_def check_missing_values_body_def in_place_def
      sample_world_def sample_frame_def null_counts_def isnull_def upt_numeral)

section \<open>Properties of the decomposition\<close>


lemma decompose_body_frame:
  "nxt w \<le> nxt (snd (decompose_body sd period t r w))
   \<and> (\<forall>x<nxt w. heap (snd (decompose_body sd period t r w)) x = heap w x)
   \<and> data_frames (snd (decompose_body sd period t r w)) = data_frames w
   \<and> printed (snd (decompose_body sd period t r w)) = printed w"
  by (simp add: decompose_body_def alloc_def Let_def split: sum.splits)


lemma decompose_loop_frame:
  "nxt w \<le> nxt (snd (for_items (decompose_body sd period) items w))
   \<and> (\<forall>x<nxt w. heap (snd (for_items (decompose_body sd period) items w)) x = heap w x)
   \<and> data_frames (snd (for_items (decompose_body sd period) items w)) = data_frames w
   \<and> printed (snd (for_items (decompose_body sd period) items w)) = printed w"
proof (induction items arbitrary: w)
  case Nil
  show ?case by simp
next
  case (Cons p items)
  obtain t r where p: "p = (t, r)" by (cases p)
  obtain res w1 where b: "decompose_body sd period t r w = (res, w1)"
    by (cases "decompose_body sd period t r w")
  note f = decompose_body_frame[of w sd period t r, unfolded b snd_conv]
  show ?case
  proof (cases res)
    case (Raise e)
    then show ?thesis using f by (simp add: p b)
  next
    case (Return u)
    note ih = Cons.IH[of w1]
    have "nxt w \<le> nxt (snd (for_items (decompose_body sd period) items w1))"
      using f ih by linarith
    moreover have "\<forall>x<nxt w. heap (snd (for_items (decompose_body sd period) items w1)) x
        = heap w x"
      using f ih by auto
    moreover have "data_frames (snd (for_items (decompose_body sd period) items w1))
        = data_frames w"
      using f ih by simp
    moreover have "printed (snd (for_items (decompose_body sd period) items w1)) = printed w"
      using f ih by simp
    ultimately show ?thesis using Return by (simp add: p b)
  qed
qed



text \<open>
  Claim C10. \<^verbatim>\<open>decompose_time_series_all_in_one\<close> leaves every table of the mapping as
  it was, whether it returns or raises and whatever the decomposition routine does with
  the series it is given: the dict maps the same tickers to the same objects, and each
  of these objects holds the table it held before, with its row order, its row index
  and its Date column. The sorting and the new index go to an object created for them.
\<close>


theorem decompose_leaves_tables_unchanged:
  assumes "wf_world w"
  shows "data_frames (snd (decompose_time_series_all_in_one sd period w)) = data_frames w
     \<and> (\<forall>(t, r)\<in>set (data_frames w).
           heap (snd (decompose_time_series_all_in_one sd period w)) r = heap w r)
     \<and> (\<forall>t. table_of (snd (decompose_time_series_all_in_one sd period w)) t = table_of w t)"
proof -
  let ?w' = "snd (decompose_time_series_all_in_one sd period w)"
  note f = decompose_loop_frame[of w sd period "data_frames w",
      folded decompose_time_series_all_in_one_def]
  have d: "data_frames ?w' = data_frames w" using f by simp
  have old: "\<forall>x<nxt w. heap ?w' x = heap w x" using f by simp
  have refs: "\<forall>(t, r)\<in>set (data_frames w). r < nxt w"
    using assms by (simp add: wf_world_def list_all_iff)
  have h: "\<forall>(t, r)\<in>set (data_frames w). heap ?w' r = heap w r"
    using refs old by auto
  have tb: "\<forall>t. table_of ?w' t = table_of w t"
  proof
    fix t
    show "table_of ?w' t = table_of w t"
    proof (cases "map_of (data_frames w) t")
      case None
      then show ?thesis by (simp add: table_of_def d)
    next
      case (Some r)
      then have "(t, r) \<in> set (data_frames w)" by (rule map_of_SomeD)
      with h have "heap ?w' r = heap w r" by auto
      with Some show ?thesis by (simp add: table_of_def d)
    qed
  qed
  from d h tb show ?thesis by (intro conjI)
qed


text \<open>The theorem on a table whose rows are out of date order: after the call the
  ticker's table is the same, still out of order and with its Date column, while the
  new object 1 holds the sorted rows under the date index.\<close>


theorem decompose_leaves_tables_unchanged_witness:
  "fst (decompose_time_series_all_in_one (\<lambda>xs p. Inr xs) 1 unsorted_world) = Return ()
   \<and> table_of (snd (decompose_time_series_all_in_one (\<lambda>xs p. Inr xs) 1 unsorted_world)) ''TSLA''
       = Some \<lparr>index = IntIndex [0, 1, 2],
               columns = [(''Date'', DateCol [Some 2, Some 0, Some 1]),
                          (''Close'', FloatCol [Num 30, Num 10, Num 20])]\<rparr>
   \<and> heap (snd (decompose_time_series_all_in_one (\<lambda>xs p. Inr xs) 1 unsorted_world)) 1
       = \<lparr>index = DateIndex [Some 0, Some 1, Some 2],
          columns = [(''Close'', FloatCol [Num 10, Num 20, Num 30])]\<rparr>"
proof -
  have wf: "wf_world unsorted_world" by (simp add: wf_world_def unsorted_world_def)
  from decompose_leaves_tables_unchanged[OF wf, of "\<lambda>xs p. Inr xs" 1]
  have "table_of (snd (decompose_time_series_all_in_one (\<lambda>xs p. Inr xs) 1 unsorted_world)) ''TSLA''
      = table_of unsorted_world ''TSLA''"
    by blast
  then have a: "table_of (snd (decompose_time_series_all_in_one (\<lambda>xs p. Inr xs) 1
        unsorted_world)) ''TSLA''
       = Some \<lparr>index = IntIndex [0, 1, 2],
               columns = [(''Date'', DateCol [Some 2, Some 0, Some 1]),
                          (''Close'', FloatCol [Num 30, Num 10, Num 20])]\<rparr>"
    by (simp add: table_of_def unsorted_world_def unsorted_frame_def)
  have ro: "row_order (DateCol [Some 2, Some 0, Some 1]) = [1, 2, 0]"
    by (simp add: row_order_def upt_rec[of 0] upt_rec[of 1] upt_rec[of 2])
  have b: "decompose_time_series_all_in_one (\<lambda>xs p. Inr xs) 1 unsorted_world =
      (Return (),
       unsorted_world\<lparr>heap := (heap unsorted_world)
           (1 := \<lparr>index = DateIndex [Some 0, Some 1, Some 2],
                  columns = [(''Close'', FloatCol [Num 10, Num 20, Num 30])]\<rparr>),
         nxt := 2\<rparr>)"
    by (simp add: decompose_time_series_all_in_one_def decompose_body_def unsorted_world_def
        unsorted_frame_def sort_values_def set_index_def getitem_def float_column_def alloc_def
        take_rows_def ro)
  show ?thesis
    apply (intro conjI)
      apply (simp add: b)
     apply (rule a)
    apply (simp add: b)
    done
qed

end
